theory Spec2Isabelle
  imports Complex_Main "HOL-Library.Signed_Division" "HOL-Library.Monad_Syntax" "HOL-Library.Word"
begin

section \<open>Doubles and integer conversions\<close>

text \<open>
  The filter \<^verbatim>\<open>src/filter/loupe/loupe.cpp\<close> computes in C++ \<^verbatim>\<open>double\<close> and converts to
  \<^verbatim>\<open>int\<close>. The theory reads this arithmetic twice. In the first reading, of this section, a
  double is an exact real number or one of the three non-finite values: every finite result
  is the exact real result and a zero divisor counts as \<open>+0\<close>, while a division by zero
  yields an infinity or NaN, every comparison with NaN is false, and NaN propagates through
  the arithmetic. It carries the properties that do not depend on the rounding of the
  operations. The second reading (section \<open>IEEE binary64 arithmetic\<close>) rounds every
  operation to the nearest double and keeps the sign of zero; it carries the properties of
  the rounded integers and of the fade that do depend on them.
\<close>

datatype dbl = Fin real | PInf | NInf | NaN

fun dneg :: "dbl \<Rightarrow> dbl" where
  "dneg (Fin a) = Fin (- a)"
| "dneg PInf = NInf"
| "dneg NInf = PInf"
| "dneg NaN = NaN"

fun dadd :: "dbl \<Rightarrow> dbl \<Rightarrow> dbl" where
  "dadd (Fin a) (Fin b) = Fin (a + b)"
| "dadd NaN _ = NaN"
| "dadd _ NaN = NaN"
| "dadd PInf NInf = NaN"
| "dadd NInf PInf = NaN"
| "dadd PInf _ = PInf"
| "dadd _ PInf = PInf"
| "dadd NInf _ = NInf"
| "dadd _ NInf = NInf"

definition dsub :: "dbl \<Rightarrow> dbl \<Rightarrow> dbl" where
  "dsub a b = dadd a (dneg b)"

fun dmul :: "dbl \<Rightarrow> dbl \<Rightarrow> dbl" where
  "dmul (Fin a) (Fin b) = Fin (a * b)"
| "dmul NaN _ = NaN"
| "dmul _ NaN = NaN"
| "dmul (Fin a) PInf = (if 0 < a then PInf else if a < 0 then NInf else NaN)"
| "dmul (Fin a) NInf = (if 0 < a then NInf else if a < 0 then PInf else NaN)"
| "dmul PInf (Fin b) = (if 0 < b then PInf else if b < 0 then NInf else NaN)"
| "dmul NInf (Fin b) = (if 0 < b then NInf else if b < 0 then PInf else NaN)"
| "dmul PInf PInf = PInf"
| "dmul NInf NInf = PInf"
| "dmul PInf NInf = NInf"
| "dmul NInf PInf = NInf"

fun ddiv :: "dbl \<Rightarrow> dbl \<Rightarrow> dbl" where
  "ddiv (Fin a) (Fin b) =
     (if b \<noteq> 0 then Fin (a / b)
      else if 0 < a then PInf else if a < 0 then NInf else NaN)"
| "ddiv NaN _ = NaN"
| "ddiv _ NaN = NaN"
| "ddiv (Fin a) _ = Fin 0"
| "ddiv PInf (Fin b) = (if 0 \<le> b then PInf else NInf)"
| "ddiv NInf (Fin b) = (if 0 \<le> b then NInf else PInf)"
| "ddiv PInf PInf = NaN"
| "ddiv PInf NInf = NaN"
| "ddiv NInf PInf = NaN"
| "ddiv NInf NInf = NaN"

text \<open>\<open>dless a b\<close> is the C++ comparison \<^verbatim>\<open>a < b\<close>; it is false whenever NaN is involved.\<close>

fun dless :: "dbl \<Rightarrow> dbl \<Rightarrow> bool" where
  "dless (Fin a) (Fin b) = (a < b)"
| "dless NaN _ = False"
| "dless _ NaN = False"
| "dless PInf _ = False"
| "dless _ NInf = False"
| "dless NInf (Fin b) = True"
| "dless NInf PInf = True"
| "dless (Fin a) PInf = True"

text \<open>
  A function of the math library such as \<^verbatim>\<open>cos\<close>, and arithmetic on its result: finite on
  finite arguments, NaN on an infinity or NaN.
\<close>

fun dlift :: "(real \<Rightarrow> real) \<Rightarrow> dbl \<Rightarrow> dbl" where
  "dlift f (Fin a) = Fin (f a)"
| "dlift f _ = NaN"

definition i2d :: "int \<Rightarrow> dbl" where
  "i2d n = Fin (real_of_int n)"

text \<open>
  The conversion \<^verbatim>\<open>double\<close> to \<^verbatim>\<open>int\<close> drops the fraction (rounds toward zero). Its behaviour is
  undefined when the result does not fit the 32-bit \<^verbatim>\<open>int\<close> (this includes the infinities and
  NaN): \<open>None\<close>.
\<close>

definition trunc :: "real \<Rightarrow> int" where
  "trunc x = (if 0 \<le> x then \<lfloor>x\<rfloor> else \<lceil>x\<rceil>)"

definition d2i :: "dbl \<Rightarrow> int option" where
  "d2i d = (case d of
              Fin x \<Rightarrow> (if - (2 ^ 31) \<le> trunc x \<and> trunc x < 2 ^ 31 then Some (trunc x) else None)
            | _ \<Rightarrow> None)"

section \<open>Helpers of the file\<close>

text \<open>
  \<^verbatim>\<open>lerp\<close> (lines 17-23): the factor is clamped to \<open>[0,1]\<close> by two comparisons, which NaN
  passes unchanged.
\<close>

definition lerp :: "dbl \<Rightarrow> dbl \<Rightarrow> dbl \<Rightarrow> dbl" where
  "lerp f a b =
     (let f = (if dless (Fin 1) f then Fin 1 else f);
          f = (if dless f (Fin 0) then Fin 0 else f)
      in dadd (dmul (dsub (Fin 1) f) a) (dmul f b))"

text \<open>
  \<^verbatim>\<open>ease_in_out_sine\<close> (lines 25-27) on a finite argument, in the exact reading; the rounded
  reading is \<open>ease_in_out_sine_ieee\<close>.
\<close>

definition ease_in_out_sine :: "real \<Rightarrow> real" where
  "ease_in_out_sine t = - (cos (pi * t) - 1) / 2"

section \<open>Parameters and state\<close>

text \<open>
  \<^verbatim>\<open>f0r_param_position\<close> is the pair of doubles \<^verbatim>\<open>x\<close>, \<^verbatim>\<open>y\<close> of the frei0r API. The parameters
  are finite doubles set by the host.
\<close>

record f0r_param_position =
  pos_x :: real
  pos_y :: real

record Region =
  enable :: bool
  srcCenter :: f0r_param_position
  srcSize :: f0r_param_position
  dstCenter :: f0r_param_position
  dstZoom :: real

text \<open>The local array \<^verbatim>\<open>info\<close> of \<^verbatim>\<open>update\<close> (lines 122-126) holds one such record per region.\<close>

record info =
  srcWidth :: int
  srcHeight :: int
  srcX0 :: int
  srcY0 :: int
  realZoom :: dbl
  dstWidth :: int
  dstHeight :: int
  dstX0 :: int
  dstY0 :: int

section \<open>The fade factor\<close>

text \<open>
  Lines 101-106 of \<^verbatim>\<open>update\<close>, on the scaled local variables \<^verbatim>\<open>endTime\<close> and \<^verbatim>\<open>fadeDuration\<close>
  (the specification calls this block \<open>computeFade\<close>). The quotient is infinite or NaN when
  \<^verbatim>\<open>fadeDuration\<close> is zero; the clamps turn the infinities into 1 and 0 and leave NaN, and
  the cosine of NaN is NaN.
\<close>

definition computeFade :: "real \<Rightarrow> real \<Rightarrow> real \<Rightarrow> dbl" where
  "computeFade time endTime_s fadeDuration_s =
     (let fade = ddiv (Fin (min time (endTime_s - time))) (Fin fadeDuration_s);
          fade = (if dless (Fin 1) fade then Fin 1 else fade);
          fade = (if dless fade (Fin 0) then Fin 0 else fade)
      in dlift ease_in_out_sine fade)"

section \<open>The geometry of one region\<close>

text \<open>
  One iteration of the loop of lines 128-150, for the region \<open>r\<close> of a \<open>width\<close> by \<open>height\<close>
  frame (both \<^verbatim>\<open>unsigned int\<close>, converted to double exactly). Each assignment to an \<^verbatim>\<open>int\<close>
  field converts a double; \<^verbatim>\<open>info[i].srcWidth / 2\<close> is a division of \<^verbatim>\<open>int\<close>s, which drops
  the fraction. The result is \<open>None\<close> when one of the eight conversions is undefined. This
  is the exact reading; \<open>resolve_source\<close> is the rounded reading of lines 129-134.
\<close>

definition resolve :: "nat \<Rightarrow> nat \<Rightarrow> Region \<Rightarrow> dbl \<Rightarrow> info option" where
  "resolve width height r fade = do {
     srcWidth \<leftarrow> d2i (Fin (pos_x (srcSize r) * real height + 0.5));
     srcHeight \<leftarrow> d2i (Fin (pos_y (srcSize r) * real height + 0.5));
     srcX0 \<leftarrow> d2i (Fin ((pos_x (srcCenter r) * 2 - 0.5) * real width
                         - real_of_int (srcWidth sdiv 2) + 0.5));
     srcY0 \<leftarrow> d2i (Fin ((pos_y (srcCenter r) * 2 - 0.5) * real height
                         - real_of_int (srcHeight sdiv 2) + 0.5));
     let realZoom = lerp fade (Fin 1) (Fin (dstZoom r * 10));
     dstWidth \<leftarrow> d2i (dadd (dmul (i2d srcWidth) realZoom) (Fin 0.5));
     dstHeight \<leftarrow> d2i (dadd (dmul (i2d srcHeight) realZoom) (Fin 0.5));
     dstX0 \<leftarrow> d2i (dadd (dsub (dmul (dsub (dmul (lerp fade (Fin (pos_x (srcCenter r)))
                                                             (Fin (pos_x (dstCenter r))))
                                                 (Fin 2))
                                           (Fin 0.5))
                                     (Fin (real width)))
                               (i2d (dstWidth sdiv 2)))
                         (Fin 0.5));
     dstY0 \<leftarrow> d2i (dadd (dsub (dmul (dsub (dmul (lerp fade (Fin (pos_y (srcCenter r)))
                                                             (Fin (pos_y (dstCenter r))))
                                                 (Fin 2))
                                           (Fin 0.5))
                                     (Fin (real height)))
                               (i2d (dstHeight sdiv 2)))
                         (Fin 0.5));
     Some \<lparr> srcWidth = srcWidth, srcHeight = srcHeight, srcX0 = srcX0, srcY0 = srcY0,
            realZoom = realZoom,
            dstWidth = dstWidth, dstHeight = dstHeight, dstX0 = dstX0, dstY0 = dstY0 \<rparr>
   }"



section \<open>The filter instance\<close>

text \<open>
  The members of \<^verbatim>\<open>Loupe\<close> (lines 235-244), with \<^verbatim>\<open>width\<close> and \<^verbatim>\<open>height\<close> of the base class
  (\<^verbatim>\<open>unsigned int\<close>, here natural numbers: the file only converts them to double).
\<close>

record Loupe =
  width :: nat
  height :: nat
  showWireframe :: bool
  showMagnified :: bool
  outlineWidth :: real
  pointerWidth :: real
  pointerOutlineWidth :: real
  fadeDuration :: real
  endTime :: real
  regions :: "Region list"

definition numRegions :: nat where
  "numRegions = 3"

text \<open>The instance the constructor leaves (lines 40-55) for a frame of the given size.\<close>

definition new_Loupe :: "nat \<Rightarrow> nat \<Rightarrow> Loupe" where
  "new_Loupe w h =
     \<lparr> width = w, height = h, showWireframe = True, showMagnified = True,
       outlineWidth = 0.03, pointerWidth = 0.06, pointerOutlineWidth = 0.03,
       fadeDuration = 0.1, endTime = 0.01,
       regions = replicate numRegions
         \<lparr> enable = False, srcCenter = \<lparr> pos_x = 0.5, pos_y = 0.5 \<rparr>,
           srcSize = \<lparr> pos_x = 0.5, pos_y = 0.5 \<rparr>,
           dstCenter = \<lparr> pos_x = 0.5, pos_y = 0.5 \<rparr>, dstZoom = 0.2 \<rparr> \<rparr>"

text \<open>
  Lines 99-106 of \<^verbatim>\<open>update\<close>: the parameters are scaled, then the fade is computed (exact
  reading; the rounded reading is \<open>update_fade_ieee\<close>).
\<close>

definition update_fade :: "Loupe \<Rightarrow> real \<Rightarrow> dbl" where
  "update_fade s time =
     (let fadeDuration_s = fadeDuration s * 10;
          endTime_s = endTime s * 1000
      in computeFade time endTime_s fadeDuration_s)"

section \<open>Drawing\<close>

text \<open>
  The file draws through the cairo library. The calls it makes on the context \<^verbatim>\<open>cr\<close> are
  recorded as values, with the arguments the file passes; the surface argument of
  \<^verbatim>\<open>cairo_set_source_surface\<close> is always \<^verbatim>\<open>src\<close>.
\<close>

datatype cairo_operator_t =
  CAIRO_OPERATOR_SOURCE | CAIRO_OPERATOR_OVER | CAIRO_OPERATOR_DIFFERENCE

datatype cairo_call =
    cairo_save
  | cairo_restore
  | cairo_set_operator cairo_operator_t
  | cairo_set_line_width dbl
  | cairo_set_source_rgb real real real
  | cairo_set_source_surface real real
  | cairo_move_to dbl dbl
  | cairo_line_to dbl dbl
  | cairo_arc dbl dbl dbl dbl dbl
  | cairo_rectangle dbl dbl dbl dbl
  | cairo_stroke
  | cairo_fill
  | cairo_fill_preserve
  | cairo_clip
  | cairo_paint
  | cairo_scale dbl dbl
  | cairo_translate dbl dbl

text \<open>
  The body of the loop of lines 153-198 for one enabled region: pointer and bubble,
  the magnified image, the outline. The sums and halves of \<^verbatim>\<open>int\<close> fields are computed in
  \<^verbatim>\<open>int\<close> (an overflow of these sums is not modelled) and then converted.
\<close>

definition draw_magnified :: "Loupe \<Rightarrow> dbl \<Rightarrow> info \<Rightarrow> cairo_call list" where
  "draw_magnified s fade i =
     (let bw = lerp fade (Fin 0) (Fin (pointerWidth s * 100 * real (height s) / 1080));
          bw2 = lerp fade (Fin 0) (Fin (pointerOutlineWidth s * 100 * real (height s) / 1080));
          w = lerp (dmul fade (Fin 3)) (Fin 0) (Fin (outlineWidth s * 100 * real (height s) / 1080))
      in [cairo_save,
          cairo_set_operator CAIRO_OPERATOR_OVER,
          cairo_save,
          cairo_set_line_width bw,
          cairo_set_source_rgb 0 0 0,
          cairo_move_to (i2d (srcX0 i + srcWidth i sdiv 2)) (i2d (srcY0 i + srcHeight i sdiv 2)),
          cairo_line_to (i2d (dstX0 i + dstWidth i sdiv 2)) (i2d (dstY0 i + dstHeight i sdiv 2)),
          cairo_stroke,
          cairo_set_line_width bw2,
          cairo_arc (i2d (srcX0 i + srcWidth i sdiv 2)) (i2d (srcY0 i + srcHeight i sdiv 2))
                    (dadd bw (ddiv bw2 (Fin 2))) (Fin 0) (Fin (2 * pi)),
          cairo_set_source_rgb 0 0 0,
          cairo_fill_preserve,
          cairo_set_source_rgb 1 1 1,
          cairo_stroke,
          cairo_restore,
          cairo_save,
          cairo_rectangle (i2d (dstX0 i)) (i2d (dstY0 i)) (i2d (dstWidth i)) (i2d (dstHeight i)),
          cairo_clip,
          cairo_scale (realZoom i) (realZoom i),
          cairo_translate (i2d (- srcX0 i)) (i2d (- srcY0 i)),
          cairo_translate (ddiv (i2d (dstX0 i)) (realZoom i)) (ddiv (i2d (dstY0 i)) (realZoom i)),
          cairo_set_source_surface 0 0,
          cairo_paint,
          cairo_restore,
          cairo_rectangle (dsub (i2d (dstX0 i)) (ddiv w (Fin 2))) (dsub (i2d (dstY0 i)) (ddiv w (Fin 2)))
                          (dadd (i2d (dstWidth i)) w) (dadd (i2d (dstHeight i)) w),
          cairo_set_source_rgb 1 1 1,
          cairo_set_line_width w,
          cairo_stroke,
          cairo_restore])"

text \<open>
  The loop of lines 153-198: it runs while \<^verbatim>\<open>showMagnified\<close> holds and skips the regions
  that are not enabled.
\<close>

fun magnified_loop :: "Loupe \<Rightarrow> dbl \<Rightarrow> info list \<Rightarrow> Region list \<Rightarrow> cairo_call list" where
  "magnified_loop s fade (i # is) (r # rs) =
     (if showMagnified s
      then (if \<not> enable r then [] else draw_magnified s fade i) @ magnified_loop s fade is rs
      else [])"
| "magnified_loop s fade _ _ = []"

text \<open>
  The lambda \<^verbatim>\<open>drawFrame\<close> (lines 201-215). Its parameters are \<^verbatim>\<open>unsigned\<close>: the sums wrap
  modulo \<open>2\<^sup>3\<^sup>2\<close>, and \<^verbatim>\<open>cx\<close>, \<^verbatim>\<open>cy\<close> read them back as \<^verbatim>\<open>int\<close>.
\<close>

definition drawFrame :: "32 word \<Rightarrow> 32 word \<Rightarrow> 32 word \<Rightarrow> 32 word \<Rightarrow> cairo_call list" where
  "drawFrame x y w h =
     (let wft = (3 :: real);
          crossSize = (10 :: int);
          cx = sint (x + w div 2);
          cy = sint (y + h div 2)
      in [cairo_set_line_width (Fin 3),
          cairo_set_operator CAIRO_OPERATOR_DIFFERENCE,
          cairo_rectangle (Fin (real (unat x) - wft / 2)) (Fin (real (unat y) - wft / 2))
                          (Fin (real (unat w) + wft)) (Fin (real (unat h) + wft)),
          cairo_stroke,
          cairo_move_to (i2d (cx - crossSize)) (i2d (cy - crossSize)),
          cairo_line_to (i2d (cx + crossSize)) (i2d (cy + crossSize)),
          cairo_move_to (i2d (cx - crossSize)) (i2d (cy + crossSize)),
          cairo_line_to (i2d (cx + crossSize)) (i2d (cy - crossSize)),
          cairo_stroke])"

text \<open>The loop of lines 216-224; the \<^verbatim>\<open>int\<close> fields are converted to \<^verbatim>\<open>unsigned\<close> at the call.\<close>

fun wireframe_loop :: "Loupe \<Rightarrow> info list \<Rightarrow> Region list \<Rightarrow> cairo_call list" where
  "wireframe_loop s (i # is) (r # rs) =
     (if showWireframe s
      then (if \<not> enable r then []
            else [cairo_set_source_rgb 1.0 0.5 0.5]
                 @ drawFrame (word_of_int (srcX0 i)) (word_of_int (srcY0 i))
                             (word_of_int (srcWidth i)) (word_of_int (srcHeight i))
                 @ [cairo_set_source_rgb 0.5 1.0 0.5]
                 @ drawFrame (word_of_int (dstX0 i)) (word_of_int (dstY0 i))
                             (word_of_int (dstWidth i)) (word_of_int (dstHeight i)))
           @ wireframe_loop s is rs
      else [])"
| "wireframe_loop s _ _ = []"

section \<open>The frame update\<close>

text \<open>
  A frame buffer is the list of its \<^verbatim>\<open>uint32_t\<close> pixels, row by row. The buffers are passed
  by value: the destination and the sources of a call do not overlap.
\<close>

type_synonym pixel = "32 word"

text \<open>
  Lines 115-119: the whole frame is filled from the surface \<^verbatim>\<open>src\<close> with
  \<^verbatim>\<open>CAIRO_OPERATOR_SOURCE\<close>. Both surfaces are \<^verbatim>\<open>width\<close> by \<^verbatim>\<open>height\<close> ARGB32 images with the
  stride of \<^verbatim>\<open>width\<close> pixels, the rectangle is the whole surface, and this operator replaces
  the destination: each of the first \<open>width * height\<close> pixels of the destination becomes the
  pixel of the source at the same index (for a frame size that cairo accepts for an image
  surface).
\<close>

definition draw_original :: "nat \<Rightarrow> nat \<Rightarrow> pixel list \<Rightarrow> pixel list \<Rightarrow> pixel list" where
  "draw_original w h rawDst rawSrc = take (w * h) rawSrc @ drop (w * h) rawDst"

text \<open>
  What the file does not define is a parameter of the model: the effect of every other cairo
  call on the destination pixels and on the state of the context (\<open>cairo_step\<close>, which may
  read the source surface; \<open>cairo_init\<close> is the state of the context after the original
  image was drawn), and the record that \<^verbatim>\<open>info[i]\<close> holds after a conversion whose behaviour
  is undefined (\<open>indeterminate\<close>: the compiled code stores some integers).
\<close>

record 'g platform =
  cairo_init :: 'g
  cairo_step :: "cairo_call \<Rightarrow> pixel list \<Rightarrow> pixel list \<times> 'g \<Rightarrow> pixel list \<times> 'g"
  indeterminate :: "Region \<Rightarrow> dbl \<Rightarrow> info"

text \<open>
  \<^verbatim>\<open>Loupe::update\<close> (lines 97-229). The result is the content of the destination buffer
  after the call. The buffer \<^verbatim>\<open>rawSrc2\<close> is a parameter that the body never mentions. The
  calls of lines 226-228 release the context and the surfaces and draw nothing.
\<close>

definition update :: "'g platform \<Rightarrow> Loupe \<Rightarrow> real \<Rightarrow> pixel list \<Rightarrow> pixel list \<Rightarrow> pixel list \<Rightarrow> pixel list" where
  "update pf s time rawDst rawSrc2 rawSrc =
     (let fade = update_fade s time;
          dst = draw_original (width s) (height s) rawDst rawSrc;
          info = map (\<lambda>r. case resolve (width s) (height s) r fade of
                             Some i \<Rightarrow> i
                           | None \<Rightarrow> indeterminate pf r fade)
                     (regions s);
          calls = magnified_loop s fade info (regions s) @ wireframe_loop s info (regions s)
      in fst (foldl (\<lambda>c call. cairo_step pf call rawSrc c) (dst, cairo_init pf) calls))"

section \<open>Formulas of the specification and example inputs\<close>

text \<open>
  The source rectangle as section 4.2 of the specification words it: rounding to the nearest
  integer (\<open>round\<close>, ties upwards) and the exact half of the width and of the height.
\<close>

definition spec_srcWidth :: "nat \<Rightarrow> Region \<Rightarrow> int" where
  "spec_srcWidth frameHeight r = round (pos_x (srcSize r) * real frameHeight)"

definition spec_srcHeight :: "nat \<Rightarrow> Region \<Rightarrow> int" where
  "spec_srcHeight frameHeight r = round (pos_y (srcSize r) * real frameHeight)"

definition spec_srcX0 :: "nat \<Rightarrow> nat \<Rightarrow> Region \<Rightarrow> int" where
  "spec_srcX0 frameWidth frameHeight r =
     round ((pos_x (srcCenter r) * 2 - 0.5) * real frameWidth
            - real_of_int (spec_srcWidth frameHeight r) / 2)"

definition spec_srcY0 :: "nat \<Rightarrow> nat \<Rightarrow> Region \<Rightarrow> int" where
  "spec_srcY0 frameWidth frameHeight r =
     round ((pos_y (srcCenter r) * 2 - 0.5) * real frameHeight
            - real_of_int (spec_srcHeight frameHeight r) / 2)"

text \<open>The region of the example scenario in section 8 of the specification.\<close>

definition example_region :: Region where
  "example_region =
     \<lparr> enable = True, srcCenter = \<lparr> pos_x = 0.5, pos_y = 0.5 \<rparr>,
       srcSize = \<lparr> pos_x = 0.2, pos_y = 0.2 \<rparr>,
       dstCenter = \<lparr> pos_x = 0.8, pos_y = 0.2 \<rparr>, dstZoom = 0.3 \<rparr>"

text \<open>
  A drawing backend that ignores every call and stores zeros after an undefined conversion;
  it only serves as a concrete instance of the parameter.
\<close>

definition idle_platform :: "unit platform" where
  "idle_platform =
     \<lparr> cairo_init = (),
       cairo_step = (\<lambda>call src c. c),
       indeterminate = (\<lambda>r fade. \<lparr> srcWidth = 0, srcHeight = 0, srcX0 = 0, srcY0 = 0,
                                     realZoom = NaN,
                                     dstWidth = 0, dstHeight = 0, dstX0 = 0, dstY0 = 0 \<rparr>) \<rparr>"

section \<open>IEEE binary64 arithmetic\<close>

text \<open>
  A binary64 value: a finite number (\<open>Val 0\<close> is \<open>+0\<close>), the negative zero, the infinities
  and NaN. The arguments of the operations are arbitrary reals under \<open>Val\<close>; the doubles are
  among them.
\<close>

datatype double = Val real | NegZero | PosInf | NegInf | Nan

text \<open>
  Rounding to nearest, ties to even (the default mode). Within the binade of \<open>x\<close> the doubles
  are the multiples of \<open>ulp x\<close>; below \<open>2 powr (- 1022)\<close> they are the multiples of
  \<open>2 powr (- 1074)\<close>; a result of magnitude \<open>2 ^ 1024\<close> or more is an infinity, and a non-zero
  value that rounds to zero keeps its sign.
\<close>

definition rne :: "real \<Rightarrow> int" where
  "rne y = (let n = \<lfloor>y\<rfloor>; d = y - real_of_int n
            in if d < 1/2 then n else if 1/2 < d then n + 1 else if even n then n else n + 1)"

definition exponent :: "real \<Rightarrow> int" where
  "exponent x = max \<lfloor>log 2 \<bar>x\<bar>\<rfloor> (- 1022)"

definition ulp :: "real \<Rightarrow> real" where
  "ulp x = 2 powr real_of_int (exponent x - 52)"

definition fl :: "real \<Rightarrow> double" where
  "fl x = (if x = 0 then Val 0
           else let y = real_of_int (rne (x / ulp x)) * ulp x
                in if 2 ^ 1024 \<le> \<bar>y\<bar> then (if 0 < x then PosInf else NegInf)
                   else if y = 0 then (if x < 0 then NegZero else Val 0)
                   else Val y)"

text \<open>
  The operations: an exact zero result of a sum is \<open>+0\<close> unless both operands are negative
  zeros; the sign of a zero product or quotient is the exclusive or of the signs; \<open>0/0\<close>,
  \<open>\<infinity>/\<infinity>\<close>, \<open>0 * \<infinity>\<close> and \<open>\<infinity> - \<infinity>\<close> are NaN; a finite non-zero value divided by a zero is an
  infinity with the exclusive or of the signs. Each operation is rounded on its own (no
  fused multiply-add).
\<close>

fun sign :: "double \<Rightarrow> bool" where
  "sign (Val a) = (a < 0)"
| "sign NegZero = True"
| "sign PosInf = False"
| "sign NegInf = True"
| "sign Nan = False"

fun valof :: "double \<Rightarrow> real" where
  "valof (Val a) = a"
| "valof NegZero = 0"
| "valof PosInf = 0"
| "valof NegInf = 0"
| "valof Nan = 0"

definition is_inf :: "double \<Rightarrow> bool" where
  "is_inf x = (x = PosInf \<or> x = NegInf)"

definition is_zero :: "double \<Rightarrow> bool" where
  "is_zero x = (x = Val 0 \<or> x = NegZero)"

definition zero_of :: "bool \<Rightarrow> double" where
  "zero_of s = (if s then NegZero else Val 0)"

definition inf_of :: "bool \<Rightarrow> double" where
  "inf_of s = (if s then NegInf else PosInf)"

fun fneg :: "double \<Rightarrow> double" where
  "fneg (Val a) = (if a = 0 then NegZero else Val (- a))"
| "fneg NegZero = Val 0"
| "fneg PosInf = NegInf"
| "fneg NegInf = PosInf"
| "fneg Nan = Nan"

definition fadd :: "double \<Rightarrow> double \<Rightarrow> double" where
  "fadd x y =
     (if x = Nan \<or> y = Nan then Nan
      else if is_inf x then (if is_inf y \<and> x \<noteq> y then Nan else x)
      else if is_inf y then y
      else let s = valof x + valof y
           in if s = 0 then zero_of (sign x \<and> sign y) else fl s)"

definition fsub :: "double \<Rightarrow> double \<Rightarrow> double" where
  "fsub x y = fadd x (fneg y)"

definition fmul :: "double \<Rightarrow> double \<Rightarrow> double" where
  "fmul x y =
     (if x = Nan \<or> y = Nan then Nan
      else if is_inf x \<or> is_inf y
           then (if is_zero x \<or> is_zero y then Nan else inf_of (sign x \<noteq> sign y))
      else let p = valof x * valof y
           in if p = 0 then zero_of (sign x \<noteq> sign y) else fl p)"

definition fdiv :: "double \<Rightarrow> double \<Rightarrow> double" where
  "fdiv x y =
     (if x = Nan \<or> y = Nan then Nan
      else if is_inf x then (if is_inf y then Nan else inf_of (sign x \<noteq> sign y))
      else if is_inf y then zero_of (sign x \<noteq> sign y)
      else if is_zero y then (if is_zero x then Nan else inf_of (sign x \<noteq> sign y))
      else if is_zero x then zero_of (sign x \<noteq> sign y)
      else fl (valof x / valof y))"

text \<open>The comparison \<^verbatim>\<open>x < y\<close> (false on NaN, the zeros are equal) and \<^verbatim>\<open>std::min\<close>.\<close>

definition fless :: "double \<Rightarrow> double \<Rightarrow> bool" where
  "fless x y =
     (if x = Nan \<or> y = Nan then False
      else if x = NegInf then y \<noteq> NegInf
      else if y = PosInf then x \<noteq> PosInf
      else if x = PosInf \<or> y = NegInf then False
      else valof x < valof y)"

definition fmin :: "double \<Rightarrow> double \<Rightarrow> double" where
  "fmin a b = (if fless b a then b else a)"

text \<open>
  The conversion to \<^verbatim>\<open>int\<close>, undefined (\<open>None\<close>) out of range. The conversions of an \<^verbatim>\<open>int\<close> or
  an \<^verbatim>\<open>unsigned int\<close> to double are exact, so they are written \<open>Val (real_of_int n)\<close> and
  \<open>Val (real n)\<close>.
\<close>

definition to_int :: "double \<Rightarrow> int option" where
  "to_int d = (case d of
                 Val x \<Rightarrow> (if - (2 ^ 31) \<le> trunc x \<and> trunc x < 2 ^ 31 then Some (trunc x) else None)
               | NegZero \<Rightarrow> Some 0
               | _ \<Rightarrow> None)"

definition is_finite :: "double \<Rightarrow> bool" where
  "is_finite d = (d \<noteq> Nan \<and> d \<noteq> PosInf \<and> d \<noteq> NegInf)"

text \<open>
  A function of the math library is a parameter: \<open>f\<close> gives its result on a finite argument.
  On an infinity or NaN the cosine is NaN, and the argument \<open>-0\<close> counts as 0.
\<close>

definition libm :: "(real \<Rightarrow> double) \<Rightarrow> double \<Rightarrow> double" where
  "libm f x = (case x of Val r \<Rightarrow> f r | NegZero \<Rightarrow> f 0 | _ \<Rightarrow> Nan)"

text \<open>
  \<^verbatim>\<open>ease_in_out_sine\<close> (lines 25-27) in doubles; the cosine of the library and the value of the
  macro \<^verbatim>\<open>M_PI\<close> are parameters.
\<close>

definition ease_in_out_sine_ieee :: "(real \<Rightarrow> double) \<Rightarrow> double \<Rightarrow> double \<Rightarrow> double" where
  "ease_in_out_sine_ieee cos_lib m_pi t =
     fdiv (fneg (fsub (libm cos_lib (fmul m_pi t)) (Val 1))) (Val 2)"

text \<open>
  Lines 99-106 of \<^verbatim>\<open>update\<close> in doubles, for the members \<^verbatim>\<open>fadeDuration\<close> and \<^verbatim>\<open>endTime\<close> and the
  argument \<^verbatim>\<open>time\<close>.
\<close>

definition update_fade_ieee ::
  "(real \<Rightarrow> double) \<Rightarrow> double \<Rightarrow> double \<Rightarrow> double \<Rightarrow> double \<Rightarrow> double" where
  "update_fade_ieee cos_lib m_pi fadeDuration_p endTime_p time =
     (let fadeDuration_s = fmul fadeDuration_p (Val 10);
          endTime_s = fmul endTime_p (Val 1000);
          fade = fdiv (fmin time (fsub endTime_s time)) fadeDuration_s;
          fade = (if fless (Val 1) fade then Val 1 else fade);
          fade = (if fless fade (Val 0) then Val 0 else fade)
      in ease_in_out_sine_ieee cos_lib m_pi fade)"

text \<open>
  Lines 129-134 in doubles: the source rectangle of the region \<open>r\<close>. The parameters of the
  region enter as the doubles they are; a negative zero among them gives the same integers
  as \<open>+0\<close>.
\<close>

record source_rect =
  rect_width :: int
  rect_height :: int
  rect_x0 :: int
  rect_y0 :: int

definition resolve_source :: "nat \<Rightarrow> nat \<Rightarrow> Region \<Rightarrow> source_rect option" where
  "resolve_source frameWidth frameHeight r = do {
     w \<leftarrow> to_int (fadd (fmul (Val (pos_x (srcSize r))) (Val (real frameHeight))) (Val 0.5));
     h \<leftarrow> to_int (fadd (fmul (Val (pos_y (srcSize r))) (Val (real frameHeight))) (Val 0.5));
     x0 \<leftarrow> to_int (fadd (fsub (fmul (fsub (fmul (Val (pos_x (srcCenter r))) (Val 2)) (Val 0.5))
                                      (Val (real frameWidth)))
                                (Val (real_of_int (w sdiv 2))))
                          (Val 0.5));
     y0 \<leftarrow> to_int (fadd (fsub (fmul (fsub (fmul (Val (pos_y (srcCenter r))) (Val 2)) (Val 0.5))
                                      (Val (real frameHeight)))
                                (Val (real_of_int (h sdiv 2))))
                          (Val 0.5));
     Some \<lparr> rect_width = w, rect_height = h, rect_x0 = x0, rect_y0 = y0 \<rparr>
   }"

text \<open>A region whose parameters are dyadic fractions, so that the products are exact.\<close>

definition dyadic_region :: Region where
  "dyadic_region =
     \<lparr> enable = True, srcCenter = \<lparr> pos_x = 0.75, pos_y = 0.75 \<rparr>,
       srcSize = \<lparr> pos_x = 0.25, pos_y = 0.25 \<rparr>,
       dstCenter = \<lparr> pos_x = 0.5, pos_y = 0.5 \<rparr>, dstZoom = 0.25 \<rparr>"

section \<open>Conversion and interpolation lemmas\<close>

lemma d2i_Some_iff:
  "d2i d = Some n \<longleftrightarrow>
     (\<exists>x. d = Fin x \<and> n = trunc x \<and> - (2 ^ 31) \<le> trunc x \<and> trunc x < 2 ^ 31)"
  by (cases d) (auto simp: d2i_def)

lemma d2i_Fin_Some: "d2i (Fin x) = Some n \<Longrightarrow> n = trunc x"
  by (simp add: d2i_Some_iff)


lemma trunc_of_int_half: "0 \<le> n \<Longrightarrow> trunc (real_of_int n + 1/2) = n"
  unfolding trunc_def by (simp; linarith)

lemma trunc_nonneg: "- 1 < x \<Longrightarrow> 0 \<le> trunc x"
  unfolding trunc_def by (simp; linarith)


lemma trunc_abs_le: "\<bar>real_of_int (trunc x)\<bar> \<le> \<bar>x\<bar>"
  unfolding trunc_def by (simp; linarith)

lemma d2i_Fin_in_range:
  assumes "\<bar>x\<bar> < 2 ^ 31"
  shows "d2i (Fin x) = Some (trunc x)"
proof -
  have "\<bar>real_of_int (trunc x)\<bar> < 2 ^ 31"
    using trunc_abs_le [of x] assms by linarith
  then have "- (2 ^ 31) \<le> trunc x \<and> trunc x < 2 ^ 31"
    by (simp add: abs_less_iff)
  then show ?thesis
    by (simp add: d2i_def)
qed

lemma sdiv2_abs_le: "\<bar>real_of_int (k sdiv 2)\<bar> \<le> \<bar>real_of_int k\<bar>"
proof -
  have "\<bar>k\<bar> div 2 \<le> \<bar>k\<bar>"
    by presburger
  then have "\<bar>k sdiv 2\<bar> \<le> \<bar>k\<bar>"
    by (simp add: signed_divide_int_def abs_mult abs_sgn_eq)
  then show ?thesis
    by linarith
qed

lemma lerp_Fin:
  "0 \<le> f \<Longrightarrow> f \<le> 1 \<Longrightarrow> lerp (Fin f) (Fin a) (Fin b) = Fin ((1 - f) * a + f * b)"
  by (simp add: lerp_def dsub_def)

text \<open>What a defined result of \<open>resolve\<close> says about each field.\<close>

lemma resolve_SomeD:
  assumes "resolve w h r fade = Some i"
  shows "d2i (Fin (pos_x (srcSize r) * real h + 0.5)) = Some (srcWidth i)"
    and "d2i (Fin (pos_y (srcSize r) * real h + 0.5)) = Some (srcHeight i)"
    and "d2i (Fin ((pos_x (srcCenter r) * 2 - 0.5) * real w
                   - real_of_int (srcWidth i sdiv 2) + 0.5)) = Some (srcX0 i)"
    and "d2i (Fin ((pos_y (srcCenter r) * 2 - 0.5) * real h
                   - real_of_int (srcHeight i sdiv 2) + 0.5)) = Some (srcY0 i)"
    and "realZoom i = lerp fade (Fin 1) (Fin (dstZoom r * 10))"
    and "d2i (dadd (dmul (i2d (srcWidth i)) (realZoom i)) (Fin 0.5)) = Some (dstWidth i)"
    and "d2i (dadd (dmul (i2d (srcHeight i)) (realZoom i)) (Fin 0.5)) = Some (dstHeight i)"
    and "d2i (dadd (dsub (dmul (dsub (dmul (lerp fade (Fin (pos_x (srcCenter r)))
                                                       (Fin (pos_x (dstCenter r))))
                                           (Fin 2))
                                     (Fin 0.5))
                               (Fin (real w)))
                         (i2d (dstWidth i sdiv 2)))
                   (Fin 0.5)) = Some (dstX0 i)"
    and "d2i (dadd (dsub (dmul (dsub (dmul (lerp fade (Fin (pos_y (srcCenter r)))
                                                       (Fin (pos_y (dstCenter r))))
                                           (Fin 2))
                                     (Fin 0.5))
                               (Fin (real h)))
                         (i2d (dstHeight i sdiv 2)))
                   (Fin 0.5)) = Some (dstY0 i)"
  using assms
  by (auto simp: resolve_def Let_def bind_eq_Some_conv)

section \<open>The geometry is defined on the parameter range of the host\<close>

text \<open>
  For parameters in \<open>[0,1]\<close>, a fade in \<open>[0,1]\<close> and a frame of at most \<open>2\<^sup>2\<^sup>7\<close> pixels in
  each direction, all eight conversions are in range: \<open>resolve\<close> returns a record.
\<close>

lemma remap_bound:
  assumes "0 \<le> c" and "c \<le> 1"
  shows "\<bar>(c * 2 - 0.5) * real n\<bar> \<le> 3/2 * real n"
proof -
  have "\<bar>c * 2 - 0.5\<bar> \<le> 3/2"
    using assms by linarith
  then have "\<bar>c * 2 - 0.5\<bar> * real n \<le> 3/2 * real n"
    by (rule mult_right_mono) simp
  then show ?thesis
    by (simp add: abs_mult)
qed

lemma unit_scale:
  fixes c n :: real
  assumes "0 \<le> c" and "c \<le> 1" and "0 \<le> n"
  shows "0 \<le> c * n \<and> c * n \<le> n"
  using assms by (simp add: mult_left_le_one_le)

lemma lerp_unit:
  fixes f a b :: real
  assumes "0 \<le> f" and "f \<le> 1" and "0 \<le> a" and "a \<le> 1" and "0 \<le> b" and "b \<le> 1"
  shows "0 \<le> (1 - f) * a + f * b \<and> (1 - f) * a + f * b \<le> 1"
proof -
  have "0 \<le> a * (1 - f) \<and> a * (1 - f) \<le> 1 - f"
    using assms by (intro unit_scale) simp_all
  moreover have "0 \<le> b * f \<and> b * f \<le> f"
    using assms by (intro unit_scale) simp_all
  ultimately show ?thesis
    by (simp add: mult.commute)
qed

lemma resolve_defined:
  assumes w: "w \<le> 2 ^ 27" and h: "h \<le> 2 ^ 27"
    and sx: "0 \<le> pos_x (srcSize r)" "pos_x (srcSize r) \<le> 1"
    and sy: "0 \<le> pos_y (srcSize r)" "pos_y (srcSize r) \<le> 1"
    and cx: "0 \<le> pos_x (srcCenter r)" "pos_x (srcCenter r) \<le> 1"
    and cy: "0 \<le> pos_y (srcCenter r)" "pos_y (srcCenter r) \<le> 1"
    and dx: "0 \<le> pos_x (dstCenter r)" "pos_x (dstCenter r) \<le> 1"
    and dy: "0 \<le> pos_y (dstCenter r)" "pos_y (dstCenter r) \<le> 1"
    and z: "0 \<le> dstZoom r" "dstZoom r \<le> 1"
    and f: "0 \<le> f" "f \<le> 1"
  shows "\<exists>i. resolve w h r (Fin f) = Some i"
proof -
  have "real w \<le> real (2 ^ 27)" and "real h \<le> real (2 ^ 27)"
    using w h by (simp_all only: of_nat_le_iff)
  then have W: "0 \<le> real w" "real w \<le> 2 ^ 27" and H: "0 \<le> real h" "real h \<le> 2 ^ 27"
    by simp_all
  define a1 where "a1 = pos_x (srcSize r) * real h + 0.5"
  define a2 where "a2 = pos_y (srcSize r) * real h + 0.5"
  define a3 where "a3 = (pos_x (srcCenter r) * 2 - 0.5) * real w - real_of_int (trunc a1 sdiv 2) + 0.5"
  define a4 where "a4 = (pos_y (srcCenter r) * 2 - 0.5) * real h - real_of_int (trunc a2 sdiv 2) + 0.5"
  define zm where "zm = (1 - f) * 1 + f * (dstZoom r * 10)"
  define a5 where "a5 = real_of_int (trunc a1) * zm + 0.5"
  define a6 where "a6 = real_of_int (trunc a2) * zm + 0.5"
  define lx where "lx = (1 - f) * pos_x (srcCenter r) + f * pos_x (dstCenter r)"
  define ly where "ly = (1 - f) * pos_y (srcCenter r) + f * pos_y (dstCenter r)"
  define a7 where "a7 = (lx * 2 - 0.5) * real w - real_of_int (trunc a5 sdiv 2) + 0.5"
  define a8 where "a8 = (ly * 2 - 0.5) * real h - real_of_int (trunc a6 sdiv 2) + 0.5"
  have b1: "\<bar>a1\<bar> \<le> real h + 1/2" and b2: "\<bar>a2\<bar> \<le> real h + 1/2"
    using unit_scale [OF sx H(1)] unit_scale [OF sy H(1)]
    unfolding a1_def a2_def by simp_all
  have t1: "\<bar>real_of_int (trunc a1)\<bar> \<le> real h + 1/2"
    and t2: "\<bar>real_of_int (trunc a2)\<bar> \<le> real h + 1/2"
    using trunc_abs_le [of a1] trunc_abs_le [of a2] b1 b2 by linarith+
  have b3: "\<bar>a3\<bar> \<le> 3/2 * real w + real h + 1"
    using remap_bound [OF cx, of w] sdiv2_abs_le [of "trunc a1"] t1
    unfolding a3_def by linarith
  have b4: "\<bar>a4\<bar> \<le> 3/2 * real h + real h + 1"
    using remap_bound [OF cy, of h] sdiv2_abs_le [of "trunc a2"] t2
    unfolding a4_def by linarith
  have "0 \<le> dstZoom r * f \<and> dstZoom r * f \<le> f"
    using z f by (intro unit_scale) simp_all
  then have "0 \<le> f * dstZoom r \<and> f * dstZoom r \<le> f"
    by (simp add: mult.commute)
  moreover have "zm = 1 - f + 10 * (f * dstZoom r)"
    by (simp add: zm_def)
  ultimately have zm: "0 \<le> zm" "zm \<le> 10"
    using f z by linarith+
  have p5: "\<bar>real_of_int (trunc a1)\<bar> * zm \<le> (real h + 1/2) * 10"
    by (rule mult_mono) (use t1 zm H(1) in simp_all)
  have p6: "\<bar>real_of_int (trunc a2)\<bar> * zm \<le> (real h + 1/2) * 10"
    by (rule mult_mono) (use t2 zm H(1) in simp_all)
  have m5: "\<bar>real_of_int (trunc a1) * zm\<bar> = \<bar>real_of_int (trunc a1)\<bar> * zm"
    and m6: "\<bar>real_of_int (trunc a2) * zm\<bar> = \<bar>real_of_int (trunc a2)\<bar> * zm"
    using zm(1) by (simp_all add: abs_mult)
  have q5: "\<bar>real_of_int (trunc a1) * zm\<bar> \<le> 10 * real h + 5"
    and q6: "\<bar>real_of_int (trunc a2) * zm\<bar> \<le> 10 * real h + 5"
    using p5 p6 unfolding m5 m6 by simp_all
  have b5: "\<bar>a5\<bar> \<le> 10 * real h + 11/2"
    using q5 unfolding a5_def by linarith
  have b6: "\<bar>a6\<bar> \<le> 10 * real h + 11/2"
    using q6 unfolding a6_def by linarith
  have t5: "\<bar>real_of_int (trunc a5)\<bar> \<le> 10 * real h + 11/2"
    and t6: "\<bar>real_of_int (trunc a6)\<bar> \<le> 10 * real h + 11/2"
    using trunc_abs_le [of a5] trunc_abs_le [of a6] b5 b6 by linarith+
  have lx: "0 \<le> lx" "lx \<le> 1" and ly: "0 \<le> ly" "ly \<le> 1"
    using lerp_unit [OF f cx dx] lerp_unit [OF f cy dy] unfolding lx_def ly_def by simp_all
  have b7: "\<bar>a7\<bar> \<le> 3/2 * real w + 10 * real h + 6"
    using remap_bound [OF lx, of w] sdiv2_abs_le [of "trunc a5"] t5
    unfolding a7_def by linarith
  have b8: "\<bar>a8\<bar> \<le> 3/2 * real h + 10 * real h + 6"
    using remap_bound [OF ly, of h] sdiv2_abs_le [of "trunc a6"] t6
    unfolding a8_def by linarith
  have r1: "d2i (Fin a1) = Some (trunc a1)" and r2: "d2i (Fin a2) = Some (trunc a2)"
    and r3: "d2i (Fin a3) = Some (trunc a3)" and r4: "d2i (Fin a4) = Some (trunc a4)"
    and r5: "d2i (Fin a5) = Some (trunc a5)" and r6: "d2i (Fin a6) = Some (trunc a6)"
    and r7: "d2i (Fin a7) = Some (trunc a7)" and r8: "d2i (Fin a8) = Some (trunc a8)"
    using b1 b2 b3 b4 b5 b6 b7 b8 W H by (auto intro!: d2i_Fin_in_range)
  have lz: "lerp (Fin f) (Fin 1) (Fin (dstZoom r * 10)) = Fin zm"
    and llx: "lerp (Fin f) (Fin (pos_x (srcCenter r))) (Fin (pos_x (dstCenter r))) = Fin lx"
    and lly: "lerp (Fin f) (Fin (pos_y (srcCenter r))) (Fin (pos_y (dstCenter r))) = Fin ly"
    using f by (simp_all add: lerp_Fin zm_def lx_def ly_def)
  have "resolve w h r (Fin f) =
      Some \<lparr> srcWidth = trunc a1, srcHeight = trunc a2, srcX0 = trunc a3, srcY0 = trunc a4,
             realZoom = Fin zm,
             dstWidth = trunc a5, dstHeight = trunc a6, dstX0 = trunc a7, dstY0 = trunc a8 \<rparr>"
    unfolding resolve_def lz llx lly
    using r1 r2 r3 r4 r5 r6 r7 r8
    unfolding a1_def [symmetric] a2_def [symmetric]
    by (simp add: Let_def i2d_def dsub_def a3_def a4_def a5_def a6_def a7_def a8_def)
  then show ?thesis by blast
qed


section \<open>Evaluated examples\<close>

lemmas resolve_eval = resolve_def d2i_def trunc_def lerp_def dsub_def i2d_def
  signed_divide_int_def Let_def example_region_def

lemma resolve_example_0:
  "resolve 100 100 example_region (Fin 0) =
     Some \<lparr> srcWidth = 20, srcHeight = 20, srcX0 = 40, srcY0 = 40, realZoom = Fin 1,
            dstWidth = 20, dstHeight = 20, dstX0 = 40, dstY0 = 40 \<rparr>"
  by (simp add: resolve_eval)

lemma resolve_example_1:
  "resolve 100 100 example_region (Fin 1) =
     Some \<lparr> srcWidth = 20, srcHeight = 20, srcX0 = 40, srcY0 = 40, realZoom = Fin 3,
            dstWidth = 60, dstHeight = 60, dstX0 = 80, dstY0 = - 39 \<rparr>"
  by (simp add: resolve_eval)

lemma resolve_example_negsize:
  "resolve 100 100 (example_region \<lparr> srcSize := \<lparr> pos_x = - 0.25, pos_y = 0.2 \<rparr> \<rparr>) (Fin 0) =
     Some \<lparr> srcWidth = - 24, srcHeight = 20, srcX0 = 62, srcY0 = 40, realZoom = Fin 1,
            dstWidth = - 23, dstHeight = 20, dstX0 = 61, dstY0 = 40 \<rparr>"
  by (simp add: resolve_eval)

lemma resolve_example_negzoom:
  "resolve 100 100 (example_region \<lparr> dstZoom := - 0.3 \<rparr>) (Fin 1) =
     Some \<lparr> srcWidth = 20, srcHeight = 20, srcX0 = 40, srcY0 = 40, realZoom = Fin (- 3),
            dstWidth = - 59, dstHeight = - 59, dstX0 = 139, dstY0 = 19 \<rparr>"
  by (simp add: resolve_eval)

lemma resolve_example_zoom0:
  "resolve 100 100 (example_region \<lparr> dstZoom := 0 \<rparr>) (Fin 1) =
     Some \<lparr> srcWidth = 20, srcHeight = 20, srcX0 = 40, srcY0 = 40, realZoom = Fin 0,
            dstWidth = 0, dstHeight = 0, dstX0 = 110, dstY0 = - 9 \<rparr>"
  by (simp add: resolve_eval)

section \<open>Rounding lemmas\<close>

text \<open>Evaluating \<open>fl\<close> at a value whose binade is known.\<close>

lemma exponent_eq:
  assumes "2 powr real_of_int e \<le> \<bar>x\<bar>" and "\<bar>x\<bar> < 2 powr real_of_int (e + 1)"
  shows "exponent x = max e (- 1022)"
proof -
  have "(0::real) < 2 powr real_of_int e"
    by simp
  then have "0 < \<bar>x\<bar>"
    using assms(1) by linarith
  then have "\<lfloor>log 2 \<bar>x\<bar>\<rfloor> = e"
    using assms by (simp add: floor_log_eq_powr_iff add.commute)
  then show ?thesis
    by (simp add: exponent_def)
qed

lemma fl_eval:
  assumes "2 powr real_of_int e \<le> \<bar>x\<bar>" and "\<bar>x\<bar> < 2 powr real_of_int (e + 1)"
  shows "fl x = (let q = 2 powr real_of_int (max e (- 1022) - 52);
                     y = real_of_int (rne (x / q)) * q
                 in if 2 ^ 1024 \<le> \<bar>y\<bar> then (if 0 < x then PosInf else NegInf)
                    else if y = 0 then (if x < 0 then NegZero else Val 0)
                    else Val y)"
proof -
  have "(0::real) < 2 powr real_of_int e"
    by simp
  then have "x \<noteq> 0"
    using assms(1) by auto
  then show ?thesis
    by (simp add: fl_def ulp_def exponent_eq [OF assms] Let_def)
qed

lemma fl_001: "fl 0.01 = Val (5764607523034235 / 2 ^ 59)"
  using fl_eval [of "- 7" "0.01"] by (simp add: rne_def Let_def powr_neg_numeral)

lemma fl_10: "fl 10 = Val 10"
  using fl_eval [of 3 10] by (simp add: rne_def Let_def powr_neg_numeral)

lemma fl_endTime: "fl (5764607523034235 / 2 ^ 59 * 1000) = Val 10"
  using fl_eval [of 3 "5764607523034235 / 2 ^ 59 * 1000"] by (simp add: rne_def Let_def powr_neg_numeral)

text \<open>
  Further values: the double \<open>0.1\<close>; a negative value below half the least subnormal, which
  becomes \<open>-0\<close>; a tie between two subnormals, resolved to the even one; the midpoint
  between the largest double and \<open>2 ^ 1024\<close>, which overflows; the largest double itself.
\<close>

lemma fl_tenth: "fl 0.1 = Val (3602879701896397 / 2 ^ 55)"
  using fl_eval [of "- 4" "0.1"] by (simp add: rne_def Let_def powr_neg_numeral)

lemma fl_underflow: "fl (- (1 / 2 ^ 1080)) = NegZero"
  using fl_eval [of "- 1080" "- (1 / 2 ^ 1080)"] by (simp add: rne_def Let_def powr_neg_numeral)

lemma fl_subnormal_tie: "fl (3 / 2 ^ 1075) = Val (1 / 2 ^ 1073)"
  using fl_eval [of "- 1074" "3 / 2 ^ 1075"] by (simp add: rne_def Let_def powr_neg_numeral)

lemma fl_overflow: "fl (2 ^ 1024 - 2 ^ 970) = PosInf"
  using fl_eval [of 1023 "2 ^ 1024 - 2 ^ 970"] by (simp add: rne_def Let_def powr_neg_numeral)

lemma fl_largest: "fl (2 ^ 1024 - 2 ^ 971) = Val (2 ^ 1024 - 2 ^ 971)"
  using fl_eval [of 1023 "2 ^ 1024 - 2 ^ 971"] by (simp add: rne_def Let_def powr_neg_numeral)

text \<open>
  The error of one rounding of a value of magnitude at most \<open>2 ^ 64\<close>: half a unit in the last
  place, which is at most the value times \<open>2 powr (- 53)\<close>, or \<open>2 powr (- 1075)\<close> below the normal range.
\<close>

lemma rne_error: "\<bar>real_of_int (rne y) - y\<bar> \<le> 1/2"
  unfolding rne_def Let_def by (simp; linarith)

lemma ulp_pos: "0 < ulp x"
  by (simp add: ulp_def)

lemma ulp_bound:
  assumes "x \<noteq> 0"
  shows "ulp x / 2 \<le> \<bar>x\<bar> / 2 ^ 53 + 1 / 2 ^ 100"
proof -
  define e where "e = \<lfloor>log 2 \<bar>x\<bar>\<rfloor>"
  have "0 < \<bar>x\<bar>"
    using assms by simp
  then have lo: "2 powr real_of_int e \<le> \<bar>x\<bar>"
    using floor_log_eq_powr_iff [of "\<bar>x\<bar>" 2 e] by (simp add: e_def)
  show ?thesis
  proof (cases "- 1022 \<le> e")
    case True
    then have "ulp x = 2 powr (real_of_int e - 52)"
      by (simp add: ulp_def exponent_def e_def)
    also have "\<dots> = 2 powr real_of_int e / 2 ^ 52"
      by (simp add: powr_diff)
    finally have "ulp x / 2 = 2 powr real_of_int e / 2 ^ 53"
      by simp
    also have "\<dots> \<le> \<bar>x\<bar> / 2 ^ 53"
      using lo by (simp add: divide_right_mono)
    finally show ?thesis
      by simp
  next
    case False
    then have "ulp x = 2 powr (- 1074)"
      by (simp add: ulp_def exponent_def e_def)
    also have "\<dots> \<le> 2 powr (- 99)"
      by simp
    also have "\<dots> = 1 / 2 ^ 99"
      by (simp add: powr_neg_numeral)
    finally have "ulp x / 2 \<le> 1 / 2 ^ 100"
      by simp
    moreover have "0 \<le> \<bar>x\<bar> / 2 ^ 53"
      by simp
    ultimately show ?thesis
      by linarith
  qed
qed

lemma fl_error:
  assumes "\<bar>x\<bar> \<le> 2 ^ 64"
  shows "is_finite (fl x) \<and> \<bar>valof (fl x) - x\<bar> \<le> \<bar>x\<bar> / 2 ^ 53 + 1 / 2 ^ 100"
proof (cases "x = 0")
  case True
  then show ?thesis
    by (simp add: fl_def is_finite_def)
next
  case False
  define y where "y = real_of_int (rne (x / ulp x)) * ulp x"
  have "\<bar>y - x\<bar> = \<bar>real_of_int (rne (x / ulp x)) - x / ulp x\<bar> * ulp x"
  proof -
    have "y - x = (real_of_int (rne (x / ulp x)) - x / ulp x) * ulp x"
      using ulp_pos [of x] by (simp add: y_def algebra_simps)
    then show ?thesis
      using ulp_pos [of x] by (simp add: abs_mult)
  qed
  also have "\<dots> \<le> 1/2 * ulp x"
    by (rule mult_right_mono) (use rne_error ulp_pos [of x] in simp_all)
  finally have err: "\<bar>y - x\<bar> \<le> \<bar>x\<bar> / 2 ^ 53 + 1 / 2 ^ 100"
    using ulp_bound [OF False] by simp
  have "\<bar>x\<bar> / 2 ^ 53 \<le> 2 ^ 64 / 2 ^ 53"
    using assms by (simp add: divide_right_mono)
  then have "\<bar>y\<bar> \<le> 2 ^ 64 + 2 ^ 64 / 2 ^ 53 + 1 / 2 ^ 100"
    using err assms by linarith
  then have small: "\<bar>y\<bar> < 2 ^ 1024"
    by simp
  have "fl x = (if y = 0 then (if x < 0 then NegZero else Val 0) else Val y)"
    using False small by (simp add: fl_def y_def [symmetric] Let_def)
  then have "is_finite (fl x)" and "valof (fl x) = y"
    by (simp_all add: is_finite_def)
  then show ?thesis
    using err by simp
qed

lemma is_finite_Val [simp]: "is_finite (Val a)"
  by (simp add: is_finite_def)

lemma is_finite_cases: "is_finite d \<Longrightarrow> d = Val (valof d) \<or> (d = NegZero \<and> valof d = 0)"
  by (cases d) (simp_all add: is_finite_def)

lemma fmul_error:
  assumes "is_finite x" and "is_finite y" and "\<bar>valof x * valof y\<bar> \<le> 2 ^ 64"
  shows "is_finite (fmul x y)
       \<and> \<bar>valof (fmul x y) - valof x * valof y\<bar> \<le> \<bar>valof x * valof y\<bar> / 2 ^ 53 + 1 / 2 ^ 100"
proof -
  define p where "p = valof x * valof y"
  have f: "fmul x y = (if p = 0 then zero_of (sign x \<noteq> sign y) else fl p)"
    using assms(1,2) by (simp add: fmul_def is_finite_def is_inf_def p_def)
  have "is_finite (fmul x y) \<and> \<bar>valof (fmul x y) - p\<bar> \<le> \<bar>p\<bar> / 2 ^ 53 + 1 / 2 ^ 100"
  proof (cases "p = 0")
    case True
    then show ?thesis
      unfolding f by (simp add: zero_of_def is_finite_def)
  next
    case False
    then show ?thesis
      unfolding f using fl_error [of p] assms(3) by (simp add: p_def)
  qed
  then show ?thesis
    by (simp add: p_def)
qed

lemma fadd_error:
  assumes "is_finite x" and "is_finite y" and "\<bar>valof x + valof y\<bar> \<le> 2 ^ 64"
  shows "is_finite (fadd x y)
       \<and> \<bar>valof (fadd x y) - (valof x + valof y)\<bar> \<le> \<bar>valof x + valof y\<bar> / 2 ^ 53 + 1 / 2 ^ 100"
proof -
  define p where "p = valof x + valof y"
  have f: "fadd x y = (if p = 0 then zero_of (sign x \<and> sign y) else fl p)"
    using assms(1,2) by (simp add: fadd_def is_finite_def is_inf_def p_def)
  have "is_finite (fadd x y) \<and> \<bar>valof (fadd x y) - p\<bar> \<le> \<bar>p\<bar> / 2 ^ 53 + 1 / 2 ^ 100"
  proof (cases "p = 0")
    case True
    then show ?thesis
      unfolding f by (simp add: zero_of_def is_finite_def)
  next
    case False
    then show ?thesis
      unfolding f using fl_error [of p] assms(3) by (simp add: p_def)
  qed
  then show ?thesis
    by (simp add: p_def)
qed

lemma fneg_finite: "is_finite y \<Longrightarrow> is_finite (fneg y) \<and> valof (fneg y) = - valof y"
  by (cases y) (simp_all add: is_finite_def)

lemma fsub_error:
  assumes "is_finite x" and "is_finite y" and "\<bar>valof x - valof y\<bar> \<le> 2 ^ 64"
  shows "is_finite (fsub x y)
       \<and> \<bar>valof (fsub x y) - (valof x - valof y)\<bar> \<le> \<bar>valof x - valof y\<bar> / 2 ^ 53 + 1 / 2 ^ 100"
  using fadd_error [of x "fneg y"] fneg_finite [OF assms(2)] assms(1,3)
  by (simp add: fsub_def)

lemma to_int_finite: "is_finite d \<Longrightarrow> to_int d = Some n \<Longrightarrow> n = trunc (valof d)"
  by (cases d) (auto simp: to_int_def is_finite_def trunc_def split: if_splits)

lemma to_int_range: "to_int d = Some n \<Longrightarrow> - (2 ^ 31) \<le> n \<and> n < 2 ^ 31"
  by (cases d) (auto simp: to_int_def split: if_splits)

lemma trunc_near_round:
  assumes "\<bar>t - (Q + 1/2)\<bar> \<le> 1 / 2 ^ 17" and "0 \<le> Q"
    and "\<bar>Q - real_of_int (round Q)\<bar> \<le> 1/2 - 1 / 2 ^ 16"
  shows "trunc t = round Q"
proof -
  define m where "m = round Q"
  have "0 \<le> m"
    using assms(2) unfolding m_def round_def by simp
  have a1: "\<bar>t - (Q + 1/2)\<bar> \<le> 1 / 131072"
    using assms(1) by simp
  have a3: "\<bar>Q - real_of_int m\<bar> \<le> 1/2 - 1 / 65536"
    using assms(3) by (simp add: m_def)
  have lo: "real_of_int m \<le> t"
    using a1 a3 by linarith
  have hi: "t < real_of_int m + 1"
    using a1 a3 by linarith
  have "0 \<le> t"
    using lo \<open>0 \<le> m\<close> by linarith
  moreover have "\<lfloor>t\<rfloor> = m"
    using lo hi by (simp add: floor_unique)
  ultimately show ?thesis
    by (simp add: trunc_def m_def)
qed

text \<open>
  The double that lines 129-130 convert is within \<open>2 powr (- 17)\<close> of the exact size plus one
  half, and so is the double that lines 131-134 convert of the exact position plus one half.
\<close>

lemma rel_to_abs:
  fixes v z :: real
  assumes "\<bar>v - z\<bar> \<le> \<bar>z\<bar> / 2 ^ 53 + 1 / 2 ^ 100" and "\<bar>z\<bar> \<le> 2 ^ 32"
  shows "\<bar>v - z\<bar> \<le> 1 / 2 ^ 20"
proof -
  have "\<bar>z\<bar> / 9007199254740992 \<le> 4294967296 / 9007199254740992"
    using assms(2) by (simp add: divide_right_mono)
  then have "\<bar>z\<bar> / 9007199254740992 \<le> 1 / 2097152"
    by simp
  moreover have "\<bar>v - z\<bar> \<le> \<bar>z\<bar> / 9007199254740992 + 1 / 1267650600228229401496703205376"
    using assms(1) by simp
  ultimately have "\<bar>v - z\<bar> \<le> 1 / 1048576"
    by linarith
  then show ?thesis
    by simp
qed

lemma size_error:
  assumes "0 \<le> c * real n" and "c * real n \<le> 2 ^ 31"
  shows "is_finite (fadd (fmul (Val c) (Val (real n))) (Val 0.5))
       \<and> \<bar>valof (fadd (fmul (Val c) (Val (real n))) (Val 0.5)) - (c * real n + 1/2)\<bar> \<le> 1 / 2 ^ 17"
proof -
  define x where "x = c * real n"
  define d1 where "d1 = fmul (Val c) (Val (real n))"
  define d2 where "d2 = fadd d1 (Val 0.5)"
  have x: "0 \<le> x" "x \<le> 2147483648"
    using assms by (simp_all add: x_def)
  have r1: "is_finite d1 \<and> \<bar>valof d1 - x\<bar> \<le> \<bar>x\<bar> / 2 ^ 53 + 1 / 2 ^ 100"
    unfolding d1_def x_def using fmul_error [of "Val c" "Val (real n)"] assms by simp
  have "\<bar>x\<bar> \<le> 2 ^ 32"
    using x by simp
  then have e1: "\<bar>valof d1 - x\<bar> \<le> 1 / 1048576"
    using rel_to_abs [of "valof d1" x] r1 by simp
  have m2: "\<bar>valof d1 + 1/2\<bar> \<le> 4294967296"
    using e1 x by linarith
  have r2: "is_finite d2 \<and> \<bar>valof d2 - (valof d1 + 1/2)\<bar> \<le> \<bar>valof d1 + 1/2\<bar> / 2 ^ 53 + 1 / 2 ^ 100"
    unfolding d2_def using fadd_error [of d1 "Val 0.5"] r1 m2 by simp
  have e2: "\<bar>valof d2 - (valof d1 + 1/2)\<bar> \<le> 1 / 1048576"
    using rel_to_abs [of "valof d2" "valof d1 + 1/2"] r2 m2 by simp
  have "\<bar>valof d2 - (x + 1/2)\<bar> \<le> 1 / 131072"
    using e1 e2 by linarith
  then show ?thesis
    using r2 by (simp add: d2_def d1_def x_def)
qed

lemma position_error:
  fixes c :: real and n :: nat and k :: int
  assumes n: "0 < n" "n < 2 ^ 32" and k: "\<bar>k\<bar> \<le> 2 ^ 30"
    and Q: "0 \<le> (c * 2 - 1/2) * real n - real_of_int k"
           "(c * 2 - 1/2) * real n - real_of_int k \<le> 2 ^ 31"
  shows "is_finite (fadd (fsub (fmul (fsub (fmul (Val c) (Val 2)) (Val 0.5)) (Val (real n)))
                               (Val (real_of_int k))) (Val 0.5))
       \<and> \<bar>valof (fadd (fsub (fmul (fsub (fmul (Val c) (Val 2)) (Val 0.5)) (Val (real n)))
                               (Val (real_of_int k))) (Val 0.5))
          - ((c * 2 - 1/2) * real n - real_of_int k + 1/2)\<bar> \<le> 1 / 2 ^ 17"
proof -
  define N where "N = real n"
  define K where "K = real_of_int k"
  define a where "a = c * 2"
  define A where "A = a - 1/2"
  define d1 where "d1 = fmul (Val c) (Val 2)"
  define d2 where "d2 = fsub d1 (Val 0.5)"
  define d3 where "d3 = fmul d2 (Val N)"
  define d4 where "d4 = fsub d3 (Val K)"
  define d5 where "d5 = fadd d4 (Val 0.5)"
  define t1 where "t1 = valof d1"
  define t2 where "t2 = valof d2"
  define t3 where "t3 = valof d3"
  define t4 where "t4 = valof d4"
  define t5 where "t5 = valof d5"
  have "n \<le> 2 ^ 32 - 1" and "1 \<le> n"
    using n by simp_all
  then have "real n \<le> real (2 ^ 32 - 1)" and "real 1 \<le> real n"
    by (simp_all only: of_nat_le_iff)
  then have N: "1 \<le> N" "N \<le> 4294967296"
    by (simp_all add: N_def)
  have "\<bar>real_of_int k\<bar> \<le> real_of_int (2 ^ 30)"
    using k by (simp only: of_int_abs [symmetric] of_int_le_iff)
  then have K: "\<bar>K\<bar> \<le> 1073741824"
    by (simp add: K_def)
  have Q': "0 \<le> A * N - K" "A * N - K \<le> 2147483648"
    using Q by (simp_all add: A_def a_def N_def K_def)
  have AN: "\<bar>A\<bar> * N \<le> 3221225472"
  proof -
    have "\<bar>A * N\<bar> \<le> 3221225472"
      using Q' K by linarith
    then show ?thesis
      using N by (simp add: abs_mult)
  qed
  have "\<bar>A\<bar> * 1 \<le> \<bar>A\<bar> * N"
    by (rule mult_left_mono) (use N in simp_all)
  then have A: "\<bar>A\<bar> \<le> 3221225472"
    using AN by simp
  have a: "\<bar>a\<bar> \<le> \<bar>A\<bar> + 1/2"
    by (simp add: A_def)
  have "\<bar>a\<bar> * N \<le> (\<bar>A\<bar> + 1/2) * N"
    by (rule mult_right_mono) (use a N in simp_all)
  then have aN: "\<bar>a\<bar> * N \<le> 5368709120"
    using AN N by (simp add: algebra_simps)
  \<comment> \<open>first product and difference\<close>
  have r1: "is_finite d1 \<and> \<bar>t1 - a\<bar> \<le> \<bar>a\<bar> / 2 ^ 53 + 1 / 2 ^ 100"
    unfolding d1_def t1_def a_def using fmul_error [of "Val c" "Val 2"] a A
    by (simp add: a_def)
  have e1: "\<bar>t1 - a\<bar> \<le> 1 / 1048576"
    using rel_to_abs [of t1 a] r1 a A by simp
  have m2: "\<bar>t1 - 1/2\<bar> \<le> \<bar>A\<bar> + \<bar>t1 - a\<bar>"
    by (simp add: A_def)
  have r2: "is_finite d2 \<and> \<bar>t2 - (t1 - 1/2)\<bar> \<le> \<bar>t1 - 1/2\<bar> / 2 ^ 53 + 1 / 2 ^ 100"
    unfolding d2_def t2_def using fsub_error [of d1 "Val 0.5"] r1 m2 e1 A
    by (simp add: t1_def)
  \<comment> \<open>both errors scaled by the frame dimension\<close>
  have "\<bar>t1 - a\<bar> * N \<le> (\<bar>a\<bar> / 2 ^ 53 + 1 / 2 ^ 100) * N"
    by (rule mult_right_mono) (use r1 N in simp_all)
  then have E1: "\<bar>t1 - a\<bar> * N \<le> (\<bar>a\<bar> * N) / 9007199254740992 + N / 1267650600228229401496703205376"
    by (simp add: algebra_simps)
  have "\<bar>t1 - 1/2\<bar> * N \<le> (\<bar>A\<bar> + \<bar>t1 - a\<bar>) * N"
    by (rule mult_right_mono) (use m2 N in simp_all)
  then have M2: "\<bar>t1 - 1/2\<bar> * N \<le> \<bar>A\<bar> * N + \<bar>t1 - a\<bar> * N"
    by (simp add: algebra_simps)
  have "\<bar>t2 - (t1 - 1/2)\<bar> * N \<le> (\<bar>t1 - 1/2\<bar> / 2 ^ 53 + 1 / 2 ^ 100) * N"
    by (rule mult_right_mono) (use r2 N in simp_all)
  then have E2: "\<bar>t2 - (t1 - 1/2)\<bar> * N
      \<le> (\<bar>t1 - 1/2\<bar> * N) / 9007199254740992 + N / 1267650600228229401496703205376"
    by (simp add: algebra_simps)
  have "\<bar>t2 - A\<bar> \<le> \<bar>t1 - a\<bar> + \<bar>t2 - (t1 - 1/2)\<bar>"
    by (simp add: A_def)
  then have "\<bar>t2 - A\<bar> * N \<le> (\<bar>t1 - a\<bar> + \<bar>t2 - (t1 - 1/2)\<bar>) * N"
    by (rule mult_right_mono) (use N in simp)
  then have "\<bar>t2 - A\<bar> * N \<le> \<bar>t1 - a\<bar> * N + \<bar>t2 - (t1 - 1/2)\<bar> * N"
    by (simp add: algebra_simps)
  then have S: "\<bar>t2 - A\<bar> * N \<le> 1 / 524288"
    using E1 E2 M2 aN AN N by linarith
  have "\<bar>t2 * N - A * N\<bar> = \<bar>t2 - A\<bar> * N"
    using N by (simp add: abs_mult left_diff_distrib [symmetric])
  then have S': "\<bar>t2 * N - A * N\<bar> \<le> 1 / 524288"
    using S by simp
  \<comment> \<open>the last three operations\<close>
  have m3: "\<bar>t2 * N\<bar> \<le> 4294967296"
    using S' Q' K by linarith
  have r3: "is_finite d3 \<and> \<bar>t3 - t2 * N\<bar> \<le> \<bar>t2 * N\<bar> / 2 ^ 53 + 1 / 2 ^ 100"
    unfolding d3_def t3_def using fmul_error [of d2 "Val N"] r2 m3
    by (simp add: t2_def)
  have e3: "\<bar>t3 - t2 * N\<bar> \<le> 1 / 1048576"
    using rel_to_abs [of t3 "t2 * N"] r3 m3 by simp
  have m4: "\<bar>t3 - K\<bar> \<le> 4294967296"
    using e3 S' Q' by linarith
  have r4: "is_finite d4 \<and> \<bar>t4 - (t3 - K)\<bar> \<le> \<bar>t3 - K\<bar> / 2 ^ 53 + 1 / 2 ^ 100"
    unfolding d4_def t4_def using fsub_error [of d3 "Val K"] r3 m4
    by (simp add: t3_def)
  have e4: "\<bar>t4 - (t3 - K)\<bar> \<le> 1 / 1048576"
    using rel_to_abs [of t4 "t3 - K"] r4 m4 by simp
  have m5: "\<bar>t4 + 1/2\<bar> \<le> 4294967296"
    using e4 e3 S' Q' by linarith
  have r5: "is_finite d5 \<and> \<bar>t5 - (t4 + 1/2)\<bar> \<le> \<bar>t4 + 1/2\<bar> / 2 ^ 53 + 1 / 2 ^ 100"
    unfolding d5_def t5_def using fadd_error [of d4 "Val 0.5"] r4 m5
    by (simp add: t4_def)
  have e5: "\<bar>t5 - (t4 + 1/2)\<bar> \<le> 1 / 1048576"
    using rel_to_abs [of t5 "t4 + 1/2"] r5 m5 by simp
  have "\<bar>t5 - (A * N - K + 1/2)\<bar> \<le> 1 / 131072"
    using e5 e4 e3 S' by linarith
  then show ?thesis
    using r5
    by (simp add: t5_def d5_def d4_def d3_def d2_def d1_def A_def a_def N_def K_def)
qed

lemma sdiv2_range:
  assumes "- (2 ^ 31) \<le> n \<and> n < (2 ^ 31 :: int)"
  shows "\<bar>n sdiv 2\<bar> \<le> 2 ^ 30"
proof -
  have "\<bar>n\<bar> div 2 \<le> 1073741824"
    using assms by simp presburger
  then show ?thesis
    by (simp add: signed_divide_int_def abs_mult abs_sgn_eq)
qed

lemma resolve_source_SomeD:
  assumes "resolve_source w h r = Some s"
  shows "to_int (fadd (fmul (Val (pos_x (srcSize r))) (Val (real h))) (Val 0.5)) = Some (rect_width s)"
    and "to_int (fadd (fmul (Val (pos_y (srcSize r))) (Val (real h))) (Val 0.5)) = Some (rect_height s)"
    and "to_int (fadd (fsub (fmul (fsub (fmul (Val (pos_x (srcCenter r))) (Val 2)) (Val 0.5))
                                  (Val (real w)))
                            (Val (real_of_int (rect_width s sdiv 2))))
                      (Val 0.5)) = Some (rect_x0 s)"
    and "to_int (fadd (fsub (fmul (fsub (fmul (Val (pos_y (srcCenter r))) (Val 2)) (Val 0.5))
                                  (Val (real h)))
                            (Val (real_of_int (rect_height s sdiv 2))))
                      (Val 0.5)) = Some (rect_y0 s)"
  using assms by (auto simp: resolve_source_def bind_eq_Some_conv)

lemma size_rounding:
  assumes "to_int (fadd (fmul (Val c) (Val (real n))) (Val 0.5)) = Some v"
    and "0 \<le> c * real n" and "c * real n \<le> 2 ^ 31"
    and "\<bar>c * real n - real_of_int (round (c * real n))\<bar> \<le> 1/2 - 1 / 2 ^ 16"
  shows "v = round (c * real n)"
proof -
  note E = size_error [OF assms(2,3)]
  have "v = trunc (valof (fadd (fmul (Val c) (Val (real n))) (Val 0.5)))"
    using E assms(1) by (simp add: to_int_finite)
  also have "\<dots> = round (c * real n)"
    using E assms(2,4) by (intro trunc_near_round) simp_all
  finally show ?thesis .
qed

lemma position_rounding:
  assumes "to_int (fadd (fsub (fmul (fsub (fmul (Val c) (Val 2)) (Val 0.5)) (Val (real n)))
                              (Val (real_of_int k))) (Val 0.5)) = Some v"
    and "0 < n" and "n < 2 ^ 32" and "\<bar>k\<bar> \<le> 2 ^ 30"
    and "0 \<le> (c * 2 - 1/2) * real n - real_of_int k"
    and "(c * 2 - 1/2) * real n - real_of_int k \<le> 2 ^ 31"
    and "\<bar>(c * 2 - 1/2) * real n - real_of_int k
          - real_of_int (round ((c * 2 - 1/2) * real n - real_of_int k))\<bar> \<le> 1/2 - 1 / 2 ^ 16"
  shows "v = round ((c * 2 - 1/2) * real n - real_of_int k)"
proof -
  note E = position_error [OF assms(2,3,4,5,6)]
  have "v = trunc (valof (fadd (fsub (fmul (fsub (fmul (Val c) (Val 2)) (Val 0.5)) (Val (real n)))
                              (Val (real_of_int k))) (Val 0.5)))"
    using E assms(1) by (simp add: to_int_finite)
  also have "\<dots> = round ((c * 2 - 1/2) * real n - real_of_int k)"
    using E assms(5,7) by (intro trunc_near_round) simp_all
  finally show ?thesis .
qed

text \<open>Evaluated source rectangles.\<close>

lemmas ieee_eval = resolve_source_def to_int_def trunc_def fadd_def fsub_def fmul_def
  is_inf_def zero_of_def signed_divide_int_def rne_def Let_def powr_neg_numeral

lemma resolve_source_dyadic:
  "resolve_source 101 105 dyadic_region =
     Some \<lparr> rect_width = 26, rect_height = 26, rect_x0 = 88, rect_y0 = 92 \<rparr>"
  by (simp add: ieee_eval dyadic_region_def fl_eval [of 0] fl_eval [of 4] fl_eval [of 6])

lemma resolve_source_centre:
  "resolve_source 101 100 (dyadic_region \<lparr> srcCenter := \<lparr> pos_x = 0.5, pos_y = 0.5 \<rparr> \<rparr>) =
     Some \<lparr> rect_width = 25, rect_height = 25, rect_x0 = 39, rect_y0 = 38 \<rparr>"
  by (simp add: ieee_eval dyadic_region_def fl_eval [of 0] fl_eval [of "- 1"] fl_eval [of 4] fl_eval [of 5])

lemma resolve_source_left:
  "resolve_source 101 100 (dyadic_region \<lparr> srcCenter := \<lparr> pos_x = 0.125, pos_y = 0.5 \<rparr> \<rparr>) =
     Some \<lparr> rect_width = 25, rect_height = 25, rect_x0 = - 36, rect_y0 = 38 \<rparr>"
  by (simp add: ieee_eval dyadic_region_def fl_eval [of 0] fl_eval [of "- 1"] fl_eval [of "- 2"]
      fl_eval [of 4] fl_eval [of 5])

text \<open>
  Near a tie the roundings decide: for the double \<open>0.015\<close> and height 100 the product of the
  doubles' values is just below \<open>1.5\<close> and rounds to \<open>1.5\<close>, so the file stores 2 where the
  nearest integer of the product is 1.
\<close>

lemma fl_0015: "fl 0.015 = Val (8646911284551352 / 2 ^ 59)"
  using fl_eval [of "- 7" "0.015"] by (simp add: rne_def Let_def powr_neg_numeral)

lemma near_tie_width:
  "to_int (fadd (fmul (fl 0.015) (Val (real (100::nat)))) (Val 0.5)) = Some 2
   \<and> round (valof (fl 0.015) * real (100::nat)) = 1"
  unfolding fl_0015
  by (simp add: ieee_eval round_def fl_eval [of 0] fl_eval [of 1])

section \<open>The easing curve and the fade factor\<close>

lemma ease_range: "0 \<le> ease_in_out_sine t \<and> ease_in_out_sine t \<le> 1"
proof -
  have "- 1 \<le> cos (pi * t)" and "cos (pi * t) \<le> 1"
    by simp_all
  then show ?thesis
    unfolding ease_in_out_sine_def by simp
qed

lemma ease_0: "ease_in_out_sine 0 = 0"
  by (simp add: ease_in_out_sine_def)

lemma ease_1: "ease_in_out_sine 1 = 1"
  by (simp add: ease_in_out_sine_def)

lemma computeFade_range:
  assumes "d \<noteq> 0 \<or> min t (e - t) \<noteq> 0"
  shows "\<exists>f. computeFade t e d = Fin f \<and> 0 \<le> f \<and> f \<le> 1"
proof -
  define m where "m = min t (e - t)"
  have cf: "computeFade t e d =
      (let fade = ddiv (Fin m) (Fin d);
           fade = (if dless (Fin 1) fade then Fin 1 else fade);
           fade = (if dless fade (Fin 0) then Fin 0 else fade)
       in dlift ease_in_out_sine fade)"
    by (simp add: computeFade_def m_def)
  consider "d \<noteq> 0" | "d = 0" "0 < m" | "d = 0" "m < 0"
    using assms unfolding m_def [symmetric] by linarith
  then show ?thesis
  proof cases
    case 1
    then show ?thesis
      unfolding cf using ease_range by (simp add: Let_def)
  next
    case 2
    then show ?thesis
      unfolding cf by (simp add: ease_1)
  next
    case 3
    then show ?thesis
      unfolding cf by (simp add: ease_0)
  qed
qed

lemma computeFade_NaN:
  "d = 0 \<Longrightarrow> min t (e - t) = 0 \<Longrightarrow> computeFade t e d = NaN"
  by (simp add: computeFade_def)

text \<open>On the plateau, where the raw fade is at least 1, the fade is 1.\<close>

lemma computeFade_plateau:
  assumes "0 < d" and "d \<le> min t (e - t)"
  shows "computeFade t e d = Fin 1"
proof -
  define m where "m = min t (e - t)"
  have "1 \<le> m / d"
    using assms by (simp add: m_def pos_le_divide_eq)
  then have "(if 1 < m / d then Fin 1 else Fin (m / d)) = Fin 1"
    by simp
  then show ?thesis
    using assms(1) \<open>1 \<le> m / d\<close>
    by (simp add: computeFade_def m_def [symmetric] ease_1 Let_def)
qed

text \<open>
  In the units of the parameters the file scales the end time by 1000 and the fade duration
  by 10: the midpoint of the effect is on the plateau whenever the fade duration parameter
  is positive and at most 50 times the end time parameter.
\<close>

lemma update_fade_midpoint:
  assumes "0 < fadeDuration s" and "fadeDuration s \<le> 50 * endTime s"
  shows "update_fade s (endTime s * 1000 / 2) = Fin 1"
proof -
  have "fadeDuration s * 10 \<le> min (endTime s * 1000 / 2) (endTime s * 1000 - endTime s * 1000 / 2)"
    using assms(2) by simp
  then show ?thesis
    using assms(1) by (simp add: update_fade_def Let_def computeFade_plateau del: min_less_iff_conj)
qed

text \<open>
  The formula of line 26 read on exact real numbers, \<open>(1 - cos (\<pi> t)) / 2\<close>, is monotonic
  non-decreasing on \<open>[0,1]\<close> and symmetric. The compiled function evaluates it in doubles
  through the \<^verbatim>\<open>cos\<close> of the math library and the constant \<^verbatim>\<open>M_PI\<close>, whose roundings the file
  does not fix; this lemma says nothing about those rounded values.
\<close>

lemma ease_formula_monotone_symmetric:
  "(\<forall>t. ease_in_out_sine t = (1 - cos (pi * t)) / 2)
   \<and> (\<forall>s t. 0 \<le> s \<and> s \<le> t \<and> t \<le> 1 \<longrightarrow> ease_in_out_sine s \<le> ease_in_out_sine t)
   \<and> (\<forall>t. ease_in_out_sine t + ease_in_out_sine (1 - t) = 1)"
proof (intro conjI allI impI)
  fix t :: real
  show "ease_in_out_sine t = (1 - cos (pi * t)) / 2"
    by (simp add: ease_in_out_sine_def)
next
  fix s t :: real
  assume a: "0 \<le> s \<and> s \<le> t \<and> t \<le> 1"
  have "0 \<le> pi * s" and "pi * s \<le> pi * t" and "pi * t \<le> pi"
    using a by simp_all
  then have "cos (pi * t) \<le> cos (pi * s)"
    by (rule cos_monotone_0_pi_le)
  then show "ease_in_out_sine s \<le> ease_in_out_sine t"
    by (simp add: ease_in_out_sine_def)
next
  fix t :: real
  have "cos (pi * (1 - t)) = - cos (pi * t)"
    using cos_pi_minus [of "pi * t"] by (simp add: algebra_simps)
  then show "ease_in_out_sine t + ease_in_out_sine (1 - t) = 1"
    by (simp add: ease_in_out_sine_def field_simps)
qed

text \<open>
  In doubles the symmetry at \<open>t = 0.5\<close> depends on what the cosine of the library returns at
  the double \<^verbatim>\<open>M_PI * 0.5\<close>. If it returns \<open>6.123233995736766e-17\<close> (the double nearest to the
  cosine of that argument), the eased value is \<open>1/2 - 2 powr (- 54)\<close> and the sum
  \<open>eased 0.5 + eased (1 - 0.5)\<close> is \<open>1 - 2 powr (- 53)\<close>; if it returned 0, the sum would be 1. The
  file fixes neither.
\<close>

lemma ease_half_glibc:
  assumes "libm cos_lib (fmul m_pi (Val 0.5)) = Val (4967757600021511 / 2 ^ 106)"
  shows "ease_in_out_sine_ieee cos_lib m_pi (Val 0.5) = Val (1/2 - 1 / 2 ^ 54)"
    and "fadd (ease_in_out_sine_ieee cos_lib m_pi (Val 0.5))
              (ease_in_out_sine_ieee cos_lib m_pi (Val (1 - 0.5))) = Val (1 - 1 / 2 ^ 53)"
proof -
  have s: "fsub (Val (4967757600021511 / 2 ^ 106)) (Val 1) = Val (- (1 - 1 / 2 ^ 53))"
    using fl_eval [of "- 1" "4967757600021511 / 2 ^ 106 - 1"]
    by (simp add: fsub_def fadd_def is_inf_def rne_def Let_def powr_neg_numeral)
  have d: "fdiv (Val (1 - 1 / 2 ^ 53)) (Val 2) = Val (1/2 - 1 / 2 ^ 54)"
    using fl_eval [of "- 2" "(1 - 1 / 2 ^ 53) / 2"]
    by (simp add: fdiv_def is_inf_def is_zero_def rne_def Let_def powr_neg_numeral)
  show e: "ease_in_out_sine_ieee cos_lib m_pi (Val 0.5) = Val (1/2 - 1 / 2 ^ 54)"
    unfolding ease_in_out_sine_ieee_def assms s using d by simp
  have a: "fadd (Val (1/2 - 1 / 2 ^ 54)) (Val (1/2 - 1 / 2 ^ 54)) = Val (1 - 1 / 2 ^ 53)"
    using fl_eval [of "- 1" "1 - 1 / 2 ^ 53"]
    by (simp add: fadd_def is_inf_def rne_def Let_def powr_neg_numeral)
  have "(1 - 0.5 :: real) = 0.5"
    by simp
  then show "fadd (ease_in_out_sine_ieee cos_lib m_pi (Val 0.5))
              (ease_in_out_sine_ieee cos_lib m_pi (Val (1 - 0.5))) = Val (1 - 1 / 2 ^ 53)"
    using e a by simp
qed

lemma ease_half_zero:
  assumes "libm cos_lib (fmul m_pi (Val 0.5)) = Val 0"
  shows "fadd (ease_in_out_sine_ieee cos_lib m_pi (Val 0.5))
              (ease_in_out_sine_ieee cos_lib m_pi (Val (1 - 0.5))) = Val 1"
proof -
  have "ease_in_out_sine_ieee cos_lib m_pi (Val 0.5) = Val (1/2)"
    unfolding ease_in_out_sine_ieee_def assms
    using fl_eval [of 0 "- 1"] fl_eval [of "- 1" "1/2"]
    by (simp add: fsub_def fadd_def fdiv_def is_inf_def is_zero_def rne_def Let_def powr_neg_numeral)
  moreover have "fadd (Val (1/2)) (Val (1/2)) = Val 1"
    using fl_eval [of 0 1] by (simp add: fadd_def is_inf_def rne_def Let_def powr_neg_numeral)
  ultimately show ?thesis
    by simp
qed

text \<open>The fade in doubles at a zero fade duration.\<close>

lemma ease_Nan: "ease_in_out_sine_ieee cos_lib m_pi Nan = Nan"
  by (simp add: ease_in_out_sine_ieee_def fmul_def libm_def fsub_def fadd_def fdiv_def)

lemma fmul_Val: "a * b \<noteq> 0 \<Longrightarrow> fmul (Val a) (Val b) = fl (a * b)"
  by (simp add: fmul_def is_inf_def)

lemma endTime_s_default: "fmul (fl 0.01) (Val 1000) = Val 10"
proof -
  have "fmul (fl 0.01) (Val 1000) = fl (5764607523034235 / 2 ^ 59 * 1000)"
    unfolding fl_001 by (rule fmul_Val) simp
  then show ?thesis
    unfolding fl_endTime .
qed

lemma fade_zero_duration:
  assumes "fmin time (fsub (Val 10) time) = Val 0"
  shows "update_fade_ieee cos_lib m_pi (Val 0) (fl 0.01) time = Nan"
proof -
  have d: "fmul (Val 0) (Val 10) = Val 0"
    by (simp add: fmul_def is_inf_def zero_of_def)
  have q: "fdiv (Val 0) (Val 0) = Nan"
    by (simp add: fdiv_def is_inf_def is_zero_def)
  have c: "fless (Val 1) Nan = False" "fless Nan (Val 0) = False"
    by (simp_all add: fless_def)
  show ?thesis
    unfolding update_fade_ieee_def endTime_s_default d Let_def assms q
    by (simp only: c if_False ease_Nan)
qed

text \<open>
  Claim C4. The fade factor of every frame is meant to lie in \<open>[0,1]\<close>: lines 102-105 clamp it,
  and a quotient \<open>x/0\<close> with \<open>x \<noteq> 0\<close> is an infinity, which the clamp brings to 0 or 1. With
  the fade duration parameter 0 and the end time of the constructor (the double \<open>0.01\<close>,
  scaled to exactly 10), the quotient of line 101 is \<open>0/0\<close> at time 0 and again at time 10:
  NaN, on which both comparisons are false. The fade of the frame is NaN, for every math
  library.
\<close>

theorem update_fade_zero_duration:
  "update_fade_ieee cos_lib m_pi (Val 0) (fl 0.01) (Val 0) = Nan
   \<and> update_fade_ieee cos_lib m_pi (Val 0) (fl 0.01) (Val 10) = Nan"
proof
  have "fmin (Val 0) (fsub (Val 10) (Val 0)) = Val 0"
    by (simp add: fmin_def fsub_def fadd_def fless_def is_inf_def fl_10)
  then show "update_fade_ieee cos_lib m_pi (Val 0) (fl 0.01) (Val 0) = Nan"
    by (rule fade_zero_duration)
  have "fmin (Val 10) (fsub (Val 10) (Val 10)) = Val 0"
    by (simp add: fmin_def fsub_def fadd_def fless_def is_inf_def zero_of_def)
  then show "update_fade_ieee cos_lib m_pi (Val 0) (fl 0.01) (Val 10) = Nan"
    by (rule fade_zero_duration)
qed

text \<open>
  Claim C5, as amended. For every fade duration with \<open>0 < fadeDuration\<close> and
  \<open>2 * fadeDuration \<le> endTime\<close> (scaled values), the fade at the midpoint \<open>endTime / 2\<close> is 1.
\<close>

theorem computeFade_midpoint:
  assumes "0 < d" and "2 * d \<le> e"
  shows "computeFade (e / 2) e d = Fin 1"
proof -
  have "d \<le> min (e / 2) (e - e / 2)"
    using assms(2) by simp
  then show ?thesis
    using assms(1) by (rule computeFade_plateau [rotated])
qed

text \<open>Fade duration 1 and end time 10, the scaled values of the constructed instance.\<close>

theorem computeFade_midpoint_witness:
  "(0::real) < 1 \<and> (2::real) * 1 \<le> 10 \<and> computeFade (10 / 2) 10 1 = Fin 1"
proof -
  have h1: "(0::real) < 1" and h2: "(2::real) * 1 \<le> 10"
    by simp_all
  show ?thesis
    using h1 h2 computeFade_midpoint [OF h1 h2] by simp
qed

text \<open>
  Claim C5 as stated fails: with \<open>fadeDuration = endTime = 1\<close> the raw fade at the midpoint
  is \<open>1/2\<close>, and the eased fade is \<open>1/2\<close>, not 1.
\<close>

theorem computeFade_midpoint_counterexample:
  "(0::real) < 1 \<and> (1::real) \<le> 1 \<and> computeFade (1 / 2) 1 1 = Fin (1 / 2)"
  by (simp add: computeFade_def ease_in_out_sine_def)

section \<open>The resolved rectangles\<close>

text \<open>
  Claim C1, as amended. In a frame of between 1 and \<open>2\<^sup>3\<^sup>2 - 1\<close> pixels in each direction, whenever
  the source rectangle of a region is defined, each of its four integers equals the nearest
  integer of the formula of the specification, in which the half of the width and of the
  height is the integer quotient \<^verbatim>\<open>srcWidth / 2\<close>, \<^verbatim>\<open>srcHeight / 2\<close> (fraction dropped) and not the
  exact half, provided the value of the formula lies in \<open>[0, 2\<^sup>3\<^sup>1]\<close> and is at least
  \<open>2 powr (- 16)\<close> away from a rounding tie. (At a tie, or nearer to one than that, the roundings
  of the double operations decide.)
\<close>

theorem resolve_source_rounding:
  assumes "resolve_source w h r = Some s"
    and "0 < w" and "w < 2 ^ 32" and "0 < h" and "h < 2 ^ 32"
  shows "(0 \<le> pos_x (srcSize r) * real h \<and> pos_x (srcSize r) * real h \<le> 2 ^ 31
          \<and> \<bar>pos_x (srcSize r) * real h - real_of_int (round (pos_x (srcSize r) * real h))\<bar>
              \<le> 1/2 - 1 / 2 ^ 16
          \<longrightarrow> rect_width s = round (pos_x (srcSize r) * real h))
       \<and> (0 \<le> pos_y (srcSize r) * real h \<and> pos_y (srcSize r) * real h \<le> 2 ^ 31
          \<and> \<bar>pos_y (srcSize r) * real h - real_of_int (round (pos_y (srcSize r) * real h))\<bar>
              \<le> 1/2 - 1 / 2 ^ 16
          \<longrightarrow> rect_height s = round (pos_y (srcSize r) * real h))
       \<and> (0 \<le> (pos_x (srcCenter r) * 2 - 1/2) * real w - real_of_int (rect_width s sdiv 2)
          \<and> (pos_x (srcCenter r) * 2 - 1/2) * real w - real_of_int (rect_width s sdiv 2) \<le> 2 ^ 31
          \<and> \<bar>(pos_x (srcCenter r) * 2 - 1/2) * real w - real_of_int (rect_width s sdiv 2)
              - real_of_int (round ((pos_x (srcCenter r) * 2 - 1/2) * real w
                                    - real_of_int (rect_width s sdiv 2)))\<bar>
              \<le> 1/2 - 1 / 2 ^ 16
          \<longrightarrow> rect_x0 s = round ((pos_x (srcCenter r) * 2 - 1/2) * real w
                                  - real_of_int (rect_width s sdiv 2)))
       \<and> (0 \<le> (pos_y (srcCenter r) * 2 - 1/2) * real h - real_of_int (rect_height s sdiv 2)
          \<and> (pos_y (srcCenter r) * 2 - 1/2) * real h - real_of_int (rect_height s sdiv 2) \<le> 2 ^ 31
          \<and> \<bar>(pos_y (srcCenter r) * 2 - 1/2) * real h - real_of_int (rect_height s sdiv 2)
              - real_of_int (round ((pos_y (srcCenter r) * 2 - 1/2) * real h
                                    - real_of_int (rect_height s sdiv 2)))\<bar>
              \<le> 1/2 - 1 / 2 ^ 16
          \<longrightarrow> rect_y0 s = round ((pos_y (srcCenter r) * 2 - 1/2) * real h
                                  - real_of_int (rect_height s sdiv 2)))"
proof -
  note D = resolve_source_SomeD [OF assms(1)]
  have kw: "\<bar>rect_width s sdiv 2\<bar> \<le> 2 ^ 30"
    using to_int_range [OF D(1)] by (rule sdiv2_range)
  have kh: "\<bar>rect_height s sdiv 2\<bar> \<le> 2 ^ 30"
    using to_int_range [OF D(2)] by (rule sdiv2_range)
  show ?thesis
    using size_rounding [OF D(1)] size_rounding [OF D(2)]
      position_rounding [OF D(3) assms(2,3) kw] position_rounding [OF D(4) assms(4,5) kh]
    by blast
qed

text \<open>
  The dyadic region in a 101 by 105 frame: sizes \<open>26.25\<close>, stored as 26 with the integer half
  13, and positions 88 and 92.
\<close>

theorem resolve_source_rounding_witness:
  "resolve_source 101 105 dyadic_region =
     Some \<lparr> rect_width = 26, rect_height = 26, rect_x0 = 88, rect_y0 = 92 \<rparr>
   \<and> (0::nat) < 101 \<and> (101::nat) < 2 ^ 32 \<and> (0::nat) < 105 \<and> (105::nat) < 2 ^ 32
   \<and> (26::int) = round (pos_x (srcSize dyadic_region) * real (105::nat))
   \<and> (26::int) = round (pos_y (srcSize dyadic_region) * real (105::nat))
   \<and> (88::int) = round ((pos_x (srcCenter dyadic_region) * 2 - 1/2) * real (101::nat)
                        - real_of_int (26 sdiv 2))
   \<and> (92::int) = round ((pos_y (srcCenter dyadic_region) * 2 - 1/2) * real (105::nat)
                        - real_of_int (26 sdiv 2))"
proof -
  have w: "(0::nat) < 101" "(101::nat) < 2 ^ 32" and h: "(0::nat) < 105" "(105::nat) < 2 ^ 32"
    by simp_all
  show ?thesis
    using resolve_source_dyadic resolve_source_rounding [OF resolve_source_dyadic w h]
    by (simp add: dyadic_region_def signed_divide_int_def round_def)
qed

text \<open>
  Claim C1 as stated fails. With the odd width 25 the file subtracts the integer half 12:
  \<open>srcX0 = 39\<close>, where the formula with the exact half \<open>12.5\<close> gives 38. With a coordinate off
  the frame the conversion drops the fraction towards zero: \<open>srcX0 = -36\<close>, where rounding
  \<open>-37.75\<close> to the nearest integer gives \<open>-38\<close>. All the double operations of both examples are
  exact.
\<close>

theorem resolve_source_rounding_counterexample:
  "resolve_source 101 100 (dyadic_region \<lparr> srcCenter := \<lparr> pos_x = 0.5, pos_y = 0.5 \<rparr> \<rparr>) =
     Some \<lparr> rect_width = 25, rect_height = 25, rect_x0 = 39, rect_y0 = 38 \<rparr>
   \<and> spec_srcWidth 100 (dyadic_region \<lparr> srcCenter := \<lparr> pos_x = 0.5, pos_y = 0.5 \<rparr> \<rparr>) = 25
   \<and> spec_srcX0 101 100 (dyadic_region \<lparr> srcCenter := \<lparr> pos_x = 0.5, pos_y = 0.5 \<rparr> \<rparr>) = 38
   \<and> resolve_source 101 100 (dyadic_region \<lparr> srcCenter := \<lparr> pos_x = 0.125, pos_y = 0.5 \<rparr> \<rparr>) =
     Some \<lparr> rect_width = 25, rect_height = 25, rect_x0 = - 36, rect_y0 = 38 \<rparr>
   \<and> spec_srcX0 101 100 (dyadic_region \<lparr> srcCenter := \<lparr> pos_x = 0.125, pos_y = 0.5 \<rparr> \<rparr>) = - 38"
  using resolve_source_centre resolve_source_left
  by (simp add: spec_srcWidth_def spec_srcX0_def round_def dyadic_region_def)




text \<open>
  Claim C3, as amended. At fade 0, for every configuration with non-negative \<open>srcSize.x\<close> and
  \<open>srcSize.y\<close> whose geometry is defined, the destination rectangle equals the source
  rectangle exactly and \<open>realZoom\<close> is 1.
\<close>

theorem resolve_fade_zero:
  assumes "resolve w h r (Fin 0) = Some i"
    and "0 \<le> pos_x (srcSize r)" and "0 \<le> pos_y (srcSize r)"
  shows "dstX0 i = srcX0 i \<and> dstY0 i = srcY0 i \<and> dstWidth i = srcWidth i
       \<and> dstHeight i = srcHeight i \<and> realZoom i = Fin 1"
proof -
  note D = resolve_SomeD [OF assms(1)]
  have z: "realZoom i = Fin 1"
    using D(5) by (simp add: lerp_def dsub_def)
  have "0 \<le> pos_x (srcSize r) * real h" and "0 \<le> pos_y (srcSize r) * real h"
    using assms(2,3) by simp_all
  then have "0 \<le> trunc (pos_x (srcSize r) * real h + 1/2)"
    and "0 \<le> trunc (pos_y (srcSize r) * real h + 1/2)"
    by (simp_all add: trunc_nonneg)
  then have sw: "0 \<le> srcWidth i" and sh: "0 \<le> srcHeight i"
    using d2i_Fin_Some [OF D(1)] d2i_Fin_Some [OF D(2)] by simp_all
  have dw: "dstWidth i = srcWidth i"
    using D(6) sw by (simp add: z i2d_def d2i_Some_iff trunc_of_int_half)
  have dh: "dstHeight i = srcHeight i"
    using D(7) sh by (simp add: z i2d_def d2i_Some_iff trunc_of_int_half)
  have dx: "dstX0 i = srcX0 i"
    using D(8) D(3) by (simp add: dw lerp_def dsub_def i2d_def)
  have dy: "dstY0 i = srcY0 i"
    using D(9) D(4) by (simp add: dh lerp_def dsub_def i2d_def)
  show ?thesis
    using z dw dh dx dy by simp
qed

text \<open>The example region in a 100 by 100 frame at fade 0.\<close>

theorem resolve_fade_zero_witness:
  "resolve 100 100 example_region (Fin 0) =
     Some \<lparr> srcWidth = 20, srcHeight = 20, srcX0 = 40, srcY0 = 40, realZoom = Fin 1,
            dstWidth = 20, dstHeight = 20, dstX0 = 40, dstY0 = 40 \<rparr>
   \<and> 0 \<le> pos_x (srcSize example_region) \<and> 0 \<le> pos_y (srcSize example_region)"
proof -
  have h1: "0 \<le> pos_x (srcSize example_region)" and h2: "0 \<le> pos_y (srcSize example_region)"
    by (simp_all add: example_region_def)
  show ?thesis
    using resolve_example_0 h1 h2 resolve_fade_zero [OF resolve_example_0 h1 h2] by simp
qed

text \<open>
  Claim C3 as stated fails for a negative size: with \<open>srcSize.x = -0.25\<close> in a 100 by 100
  frame the source rectangle has width \<open>-24\<close> at \<open>x = 62\<close>, the destination rectangle width
  \<open>-23\<close> at \<open>x = 61\<close>.
\<close>

theorem resolve_fade_zero_counterexample:
  "resolve 100 100 (example_region \<lparr> srcSize := \<lparr> pos_x = - 0.25, pos_y = 0.2 \<rparr> \<rparr>) (Fin 0) =
     Some \<lparr> srcWidth = - 24, srcHeight = 20, srcX0 = 62, srcY0 = 40, realZoom = Fin 1,
            dstWidth = - 23, dstHeight = 20, dstX0 = 61, dstY0 = 40 \<rparr>"
  using resolve_example_negsize by simp

text \<open>
  Claim C6, as amended. For every fade in \<open>[0,1]\<close> and every configuration with non-negative
  \<open>srcSize.x\<close>, \<open>srcSize.y\<close> and \<open>dstZoom\<close> whose geometry is defined, the widths and heights of
  the source and destination rectangles are at least 0, and \<open>realZoom\<close> is a number that is
  at least 0.
\<close>

theorem resolve_sizes_nonneg:
  assumes "resolve w h r (Fin f) = Some i"
    and "0 \<le> pos_x (srcSize r)" and "0 \<le> pos_y (srcSize r)" and "0 \<le> dstZoom r"
    and "0 \<le> f" and "f \<le> 1"
  shows "0 \<le> srcWidth i \<and> 0 \<le> srcHeight i \<and> 0 \<le> dstWidth i \<and> 0 \<le> dstHeight i
       \<and> (\<exists>z. realZoom i = Fin z \<and> 0 \<le> z)"
proof -
  note D = resolve_SomeD [OF assms(1)]
  define z where "z = (1 - f) * 1 + f * (dstZoom r * 10)"
  have z: "realZoom i = Fin z"
    using D(5) assms(5,6) by (simp add: lerp_Fin z_def)
  have z0: "0 \<le> z"
    unfolding z_def using assms(4,5,6) by simp
  have "0 \<le> pos_x (srcSize r) * real h" and "0 \<le> pos_y (srcSize r) * real h"
    using assms(2,3) by simp_all
  then have "0 \<le> trunc (pos_x (srcSize r) * real h + 1/2)"
    and "0 \<le> trunc (pos_y (srcSize r) * real h + 1/2)"
    by (simp_all add: trunc_nonneg)
  then have sw: "0 \<le> srcWidth i" and sh: "0 \<le> srcHeight i"
    using d2i_Fin_Some [OF D(1)] d2i_Fin_Some [OF D(2)] by simp_all
  have "0 \<le> real_of_int (srcWidth i) * z" and "0 \<le> real_of_int (srcHeight i) * z"
    using sw sh z0 by simp_all
  then have "0 \<le> trunc (real_of_int (srcWidth i) * z + 1/2)"
    and "0 \<le> trunc (real_of_int (srcHeight i) * z + 1/2)"
    by (simp_all add: trunc_nonneg)
  then have dw: "0 \<le> dstWidth i" and dh: "0 \<le> dstHeight i"
    using D(6,7) by (simp_all add: z i2d_def d2i_Some_iff)
  show ?thesis
    using sw sh dw dh z z0 by simp
qed

text \<open>The example scenario at fade 1: sizes 20 and 60, zoom 3.\<close>

theorem resolve_sizes_nonneg_witness:
  "resolve 100 100 example_region (Fin 1) =
     Some \<lparr> srcWidth = 20, srcHeight = 20, srcX0 = 40, srcY0 = 40, realZoom = Fin 3,
            dstWidth = 60, dstHeight = 60, dstX0 = 80, dstY0 = - 39 \<rparr>
   \<and> 0 \<le> pos_x (srcSize example_region) \<and> 0 \<le> pos_y (srcSize example_region)
   \<and> 0 \<le> dstZoom example_region \<and> (0::real) \<le> 1 \<and> (1::real) \<le> 1
   \<and> (\<exists>z. Fin 3 = Fin z \<and> 0 \<le> z)"
proof -
  have h: "0 \<le> pos_x (srcSize example_region)" "0 \<le> pos_y (srcSize example_region)"
    "0 \<le> dstZoom example_region" "(0::real) \<le> 1" "(1::real) \<le> 1"
    by (simp_all add: example_region_def)
  show ?thesis
    using resolve_example_1 h resolve_sizes_nonneg [OF resolve_example_1 h] by simp
qed

text \<open>
  Claim C6 as stated fails for a negative zoom, which non-negative sizes do not exclude: with
  \<open>dstZoom = -0.3\<close> at fade 1, \<open>realZoom\<close> is \<open>-3\<close> and the destination rectangle is \<open>-59\<close> by \<open>-59\<close>.
\<close>

theorem resolve_sizes_nonneg_counterexample:
  "0 \<le> pos_x (srcSize (example_region \<lparr> dstZoom := - 0.3 \<rparr>))
   \<and> 0 \<le> pos_y (srcSize (example_region \<lparr> dstZoom := - 0.3 \<rparr>))
   \<and> resolve 100 100 (example_region \<lparr> dstZoom := - 0.3 \<rparr>) (Fin 1) =
     Some \<lparr> srcWidth = 20, srcHeight = 20, srcX0 = 40, srcY0 = 40, realZoom = Fin (- 3),
            dstWidth = - 59, dstHeight = - 59, dstX0 = 139, dstY0 = 19 \<rparr>"
  using resolve_example_negzoom by (simp add: example_region_def)

text \<open>
  Claim C10, as amended. For \<open>dstZoom\<close> in \<open>[0,1]\<close> and fade in \<open>[0,1]\<close>, the divisor \<open>realZoom\<close> of
  the paint transform is a number that is at least 0, and it is zero exactly when
  \<open>dstZoom = 0\<close> and \<open>fade = 1\<close>; in every other case the division is by a positive number.
\<close>

theorem realZoom_zero_iff:
  assumes "resolve w h r (Fin f) = Some i"
    and "0 \<le> dstZoom r" and "dstZoom r \<le> 1" and "0 \<le> f" and "f \<le> 1"
  shows "\<exists>z. realZoom i = Fin z \<and> 0 \<le> z \<and> (z = 0 \<longleftrightarrow> dstZoom r = 0 \<and> f = 1)"
proof -
  note D = resolve_SomeD [OF assms(1)]
  define z where "z = (1 - f) * 1 + f * (dstZoom r * 10)"
  have z: "realZoom i = Fin z"
    using D(5) assms(4,5) by (simp add: lerp_Fin z_def)
  have p: "0 \<le> f * (dstZoom r * 10)"
    using assms(2,4) by simp
  have z0: "0 \<le> z"
    unfolding z_def using p assms(5) by simp
  have "z = 0 \<longleftrightarrow> dstZoom r = 0 \<and> f = 1"
  proof
    assume "z = 0"
    then have e: "1 - f + f * (dstZoom r * 10) = 0"
      by (simp add: z_def)
    have f1: "f = 1"
      using e p assms(5) by linarith
    then have "dstZoom r = 0"
      using e by simp
    then show "dstZoom r = 0 \<and> f = 1"
      using f1 by simp
  next
    assume "dstZoom r = 0 \<and> f = 1"
    then show "z = 0"
      by (simp add: z_def)
  qed
  then show ?thesis
    using z z0 by blast
qed

text \<open>The example scenario at fade 1: the divisor is 3.\<close>

theorem realZoom_zero_iff_witness:
  "resolve 100 100 example_region (Fin 1) =
     Some \<lparr> srcWidth = 20, srcHeight = 20, srcX0 = 40, srcY0 = 40, realZoom = Fin 3,
            dstWidth = 60, dstHeight = 60, dstX0 = 80, dstY0 = - 39 \<rparr>
   \<and> 0 \<le> dstZoom example_region \<and> dstZoom example_region \<le> 1
   \<and> (0::real) \<le> 1 \<and> (1::real) \<le> 1
   \<and> (\<exists>z. Fin 3 = Fin z \<and> 0 \<le> z \<and> (z = 0 \<longleftrightarrow> dstZoom example_region = 0 \<and> (1::real) = 1))"
proof -
  have h: "0 \<le> dstZoom example_region" "dstZoom example_region \<le> 1"
    "(0::real) \<le> 1" "(1::real) \<le> 1"
    by (simp_all add: example_region_def)
  show ?thesis
    using resolve_example_1 h realZoom_zero_iff [OF resolve_example_1 h] by simp
qed

text \<open>
  Claim C10 as stated fails: with \<open>dstZoom = 0\<close> at fade 1 the divisor \<open>realZoom\<close> is 0, and
  the two quotients passed to \<^verbatim>\<open>cairo_translate\<close> (line 185) are \<open>110 / 0\<close> and \<open>-9 / 0\<close>, the
  infinities.
\<close>

theorem realZoom_zero_iff_counterexample:
  "resolve 100 100 (example_region \<lparr> dstZoom := 0 \<rparr>) (Fin 1) =
     Some \<lparr> srcWidth = 20, srcHeight = 20, srcX0 = 40, srcY0 = 40, realZoom = Fin 0,
            dstWidth = 0, dstHeight = 0, dstX0 = 110, dstY0 = - 9 \<rparr>
   \<and> ddiv (i2d 110) (Fin 0) = PInf \<and> ddiv (i2d (- 9)) (Fin 0) = NInf"
  using resolve_example_zoom0 by (simp add: i2d_def)

section \<open>The frame\<close>

lemma magnified_loop_off: "\<not> showMagnified s \<Longrightarrow> magnified_loop s fade is rs = []"
  by (cases "is"; cases rs) simp_all

lemma wireframe_loop_off: "\<not> showWireframe s \<Longrightarrow> wireframe_loop s is rs = []"
  by (cases "is"; cases rs) simp_all

text \<open>
  Claim C8. With \<open>showMagnified\<close> and \<open>showWireframe\<close> both false, for every time, every
  configuration, every drawing backend and every source and destination frame of
  \<open>width * height\<close> pixels, the destination buffer after the call equals the source buffer,
  and neither loop issues a drawing call.
\<close>

theorem update_plain_copy:
  assumes "\<not> showMagnified s" and "\<not> showWireframe s"
    and "length rawSrc = width s * height s" and "length rawDst = width s * height s"
  shows "update pf s time rawDst rawSrc2 rawSrc = rawSrc
       \<and> magnified_loop s fade is rs = [] \<and> wireframe_loop s is rs = []"
  using assms
  by (simp add: update_def Let_def draw_original_def magnified_loop_off wireframe_loop_off)

text \<open>A frame of 2 by 1 pixels, both switches off.\<close>

theorem update_plain_copy_witness:
  "\<not> showMagnified ((new_Loupe 2 1) \<lparr> showWireframe := False, showMagnified := False \<rparr>)
   \<and> \<not> showWireframe ((new_Loupe 2 1) \<lparr> showWireframe := False, showMagnified := False \<rparr>)
   \<and> update idle_platform ((new_Loupe 2 1) \<lparr> showWireframe := False, showMagnified := False \<rparr>)
        0 [0, 0] [7, 7] [1, 2] = [1, 2]"
proof -
  let ?s = "(new_Loupe 2 1) \<lparr> showWireframe := False, showMagnified := False \<rparr>"
  have h1: "\<not> showMagnified ?s" and h2: "\<not> showWireframe ?s"
    by simp_all
  have h3: "length [1, 2 :: pixel] = width ?s * height ?s"
    and h4: "length [0, 0 :: pixel] = width ?s * height ?s"
    by (simp_all add: new_Loupe_def)
  show ?thesis
    using h1 h2 update_plain_copy [OF h1 h2 h3 h4, of idle_platform 0 "[7, 7]"] by simp
qed

text \<open>
  Claim C9. The destination buffer after the call does not depend on the buffer \<^verbatim>\<open>rawSrc2\<close>:
  two calls that agree on everything else produce the same destination buffer.
\<close>

theorem update_ignores_rawSrc2:
  "update pf s time rawDst rawSrc2 rawSrc = update pf s time rawDst rawSrc2' rawSrc"
  by (simp add: update_def)

end
